theory Spec2Isabelle
  imports Complex_Main "HOL-Library.Word"
begin

section \<open>Python values and the built-ins the processor uses\<close>

text \<open>
  The voicemail processor is two Python modules: \<^verbatim>\<open>kvs_consumer.py\<close> (the class
  \<^verbatim>\<open>KvsPythonConsumerConnect\<close>, whose call-backs receive the fragments of one
  Kinesis Video stream) and \<^verbatim>\<open>vmx_to_s3.py\<close> (\<^verbatim>\<open>lambda_handler\<close>, which walks
  the records of one invocation). Exceptions are values of the type \<open>exn\<close>; a
  computation that may raise returns \<open>exn + 'a\<close> with \<open>Inl\<close> the exception. Every
  handler of the source is \<^verbatim>\<open>except Exception\<close>; the collaborators are taken to raise
  subclasses of \<^verbatim>\<open>Exception\<close> only.
\<close>

datatype exn =
    KeyError | IndexError | TypeError | ValueError | AttributeError | OverflowError
  | External string

type_synonym 'a result = "exn + 'a"

type_synonym bytes = "8 word list"

text \<open>
  What \<^verbatim>\<open>json.loads\<close> produces. A finite float is the rational it denotes. An object
  is the list of its items in insertion order.
\<close>

datatype pyfloat = Finite rat | Infinite | NaN

datatype json =
    JNull | JBool bool | JInt int | JFloat pyfloat | JStr string
  | JArr "json list" | JObj "(string \<times> json) list"

definition try_bind :: "'a result \<Rightarrow> ('a \<Rightarrow> 'b result) \<Rightarrow> 'b result" where
  "try_bind m f = (case m of Inl e \<Rightarrow> Inl e | Inr x \<Rightarrow> f x)"

text \<open>\<^verbatim>\<open>v[key]\<close> with a string key.\<close>

fun py_getitem :: "json \<Rightarrow> string \<Rightarrow> json result" where
  "py_getitem (JObj kvs) k = (case map_of kvs k of None \<Rightarrow> Inl KeyError | Some v \<Rightarrow> Inr v)"
| "py_getitem _ k = Inl TypeError"

text \<open>\<^verbatim>\<open>v[i]\<close> with a non-negative integer index.\<close>

fun py_getitem_int :: "json \<Rightarrow> nat \<Rightarrow> json result" where
  "py_getitem_int (JArr xs) i = (if i < length xs then Inr (xs ! i) else Inl IndexError)"
| "py_getitem_int (JStr s) i = (if i < length s then Inr (JStr [s ! i]) else Inl IndexError)"
| "py_getitem_int (JObj kvs) i = Inl KeyError"
| "py_getitem_int _ i = Inl TypeError"

text \<open>\<^verbatim>\<open>v.get(key, default)\<close>: only a dict has the method.\<close>

fun py_get :: "json \<Rightarrow> string \<Rightarrow> json \<Rightarrow> json result" where
  "py_get (JObj kvs) k d = Inr (case map_of kvs k of None \<Rightarrow> d | Some v \<Rightarrow> v)"
| "py_get _ k d = Inl AttributeError"

text \<open>\<^verbatim>\<open>v.items()\<close>.\<close>

fun py_items :: "json \<Rightarrow> (string \<times> json) list result" where
  "py_items (JObj kvs) = Inr kvs"
| "py_items _ = Inl AttributeError"

text \<open>\<^verbatim>\<open>for x in v\<close>: a list gives its elements, a dict its keys, a string its characters.\<close>

fun py_iter :: "json \<Rightarrow> json list result" where
  "py_iter (JArr xs) = Inr xs"
| "py_iter (JObj kvs) = Inr (map (\<lambda>kv. JStr (fst kv)) kvs)"
| "py_iter (JStr s) = Inr (map (\<lambda>c. JStr [c]) s)"
| "py_iter _ = Inl TypeError"

definition startswith :: "string \<Rightarrow> string \<Rightarrow> bool" where
  "startswith s prefix = (take (length prefix) s = prefix)"

text \<open>\<^verbatim>\<open>s.rstrip(chars)\<close> returns a new string; \<open>s\<close> itself is immutable.\<close>

definition rstrip :: "string \<Rightarrow> string \<Rightarrow> string" where
  "rstrip s chars = rev (dropWhile (\<lambda>c. c \<in> set chars) (rev s))"

text \<open>
  \<^verbatim>\<open>format(v)\<close> as an f-string applies it: a string is itself; the rendering of any
  other value is the parameter \<open>repr\<close>.
\<close>

fun py_str :: "(json \<Rightarrow> string) \<Rightarrow> json \<Rightarrow> string" where
  "py_str repr (JStr s) = s"
| "py_str repr v = repr v"

text \<open>The decimal rendering of a count in an f-string.\<close>

definition digit_char :: "nat \<Rightarrow> char" where
  "digit_char d = char_of (48 + d)"

fun dec :: "nat \<Rightarrow> string" where
  "dec n = (if n < 10 then [digit_char n] else dec (n div 10) @ [digit_char (n mod 10)])"

declare dec.simps [simp del]

subsection \<open>\<^verbatim>\<open>int(...)\<close>\<close>

text \<open>
  \<^verbatim>\<open>int(s)\<close> on a string: surrounding whitespace is stripped, one sign is allowed, then
  decimal digits follow, single underscores allowed between digits. The value is an
  unbounded integer. The whitespace that is stripped is tab, line feed, vertical tab,
  form feed, carriage return and space, and of the characters above 127 the next-line
  and the no-break space; the separators U+001C to U+001F are not stripped, and a
  string that holds one is no numeral. A numeral of more than \<open>max_str_digits\<close>
  digits (underscores not counted) is refused with a \<^verbatim>\<open>ValueError\<close>: 4300 is the
  interpreter's default limit. (Characters here are 8-bit, so the digits of other
  scripts that Python also accepts are not in the model.)
\<close>

definition max_str_digits :: nat where
  "max_str_digits = 4300"

definition py_isspace :: "char \<Rightarrow> bool" where
  "py_isspace c = ((of_char c :: nat) \<in> {9, 10, 11, 12, 13, 32, 133, 160})"

definition strip :: "string \<Rightarrow> string" where
  "strip s = rev (dropWhile py_isspace (rev (dropWhile py_isspace s)))"

definition digit_of :: "char \<Rightarrow> nat option" where
  "digit_of c = (let n = (of_char c :: nat) in if 48 \<le> n \<and> n \<le> 57 then Some (n - 48) else None)"

fun int_digits :: "nat \<Rightarrow> string \<Rightarrow> nat option" where
  "int_digits acc [] = Some acc"
| "int_digits acc [c] = (case digit_of c of None \<Rightarrow> None | Some v \<Rightarrow> Some (10 * acc + v))"
| "int_digits acc (c # d # ds) =
     (if c = CHR ''_''
      then (case digit_of d of None \<Rightarrow> None | Some v \<Rightarrow> int_digits (10 * acc + v) ds)
      else (case digit_of c of None \<Rightarrow> None | Some v \<Rightarrow> int_digits (10 * acc + v) (d # ds)))"

definition unsigned_of_str :: "string \<Rightarrow> nat option" where
  "unsigned_of_str s =
     (if length (filter (\<lambda>c. c \<noteq> CHR ''_'') s) > max_str_digits then None
      else case s of [] \<Rightarrow> None
           | d # ds \<Rightarrow> (case digit_of d of None \<Rightarrow> None | Some v \<Rightarrow> int_digits v ds))"

definition int_of_str :: "string \<Rightarrow> int result" where
  "int_of_str s =
     (case strip s of
        [] \<Rightarrow> Inl ValueError
      | c # cs \<Rightarrow>
          if c = CHR ''-'' then
            (case unsigned_of_str cs of None \<Rightarrow> Inl ValueError | Some n \<Rightarrow> Inr (- int n))
          else if c = CHR ''+'' then
            (case unsigned_of_str cs of None \<Rightarrow> Inl ValueError | Some n \<Rightarrow> Inr (int n))
          else
            (case unsigned_of_str (c # cs) of None \<Rightarrow> Inl ValueError | Some n \<Rightarrow> Inr (int n)))"

text \<open>\<^verbatim>\<open>int(v)\<close> on a decoded JSON value; a float is truncated towards zero.\<close>

fun py_int :: "json \<Rightarrow> int result" where
  "py_int (JInt n) = Inr n"
| "py_int (JBool b) = Inr (if b then 1 else 0)"
| "py_int (JStr s) = int_of_str s"
| "py_int (JFloat (Finite r)) = Inr (if 0 \<le> r then \<lfloor>r\<rfloor> else \<lceil>r\<rceil>)"
| "py_int (JFloat Infinite) = Inl OverflowError"
| "py_int (JFloat NaN) = Inl ValueError"
| "py_int _ = Inl TypeError"

subsection \<open>\<^verbatim>\<open>str.index\<close>, \<^verbatim>\<open>str.rindex\<close> and slicing\<close>

definition str_index :: "string \<Rightarrow> char \<Rightarrow> nat result" where
  "str_index s c = (if c \<in> set s then Inr (length (takeWhile (\<lambda>x. x \<noteq> c) s)) else Inl ValueError)"

definition str_rindex :: "string \<Rightarrow> char \<Rightarrow> nat result" where
  "str_rindex s c =
     (if c \<in> set s then Inr (length s - 1 - length (takeWhile (\<lambda>x. x \<noteq> c) (rev s)))
      else Inl ValueError)"

text \<open>\<^verbatim>\<open>s[a:b]\<close> for non-negative bounds: empty when \<open>b \<le> a\<close>, clipped at the end of \<open>s\<close>.\<close>

definition slice :: "string \<Rightarrow> nat \<Rightarrow> nat \<Rightarrow> string" where
  "slice s a b = take (b - a) (drop a s)"

section \<open>The bounded fragment consumer (\<^verbatim>\<open>kvs_consumer.py\<close>)\<close>

text \<open>
  A fragment as the call-back receives it. The document \<^verbatim>\<open>fragment_dom\<close> is opaque to
  the consumer, which only hands it to three methods of the fragment processor of
  the consumer library; the fragment is therefore given by what each of the three
  returns on it (or raises). The receive duration is logged only.
\<close>

record fragment =
  get_fragment_tags :: "(string \<times> string) list result"
  save_connect_fragment_audio_track_from_customer :: "bytes option result"
  save_connect_fragment_audio_track_to_customer :: "bytes option result"

text \<open>The attributes of \<^verbatim>\<open>KvsPythonConsumerConnect\<close> that \<^verbatim>\<open>__init__\<close> sets.\<close>

record kvs_consumer =
  stream_name :: string
  start_fragment :: int
  end_fragment :: int
  last_good_fragment_tags :: "(string \<times> string) list option"
  past_end_fragment :: bool
  from_audio_fragments :: bytes
  to_audio_fragments :: bytes
  to_customer_audio :: "bytes option"
  from_customer_audio :: "bytes option"

definition KvsPythonConsumerConnect :: "string \<Rightarrow> int \<Rightarrow> int \<Rightarrow> kvs_consumer" where
  "KvsPythonConsumerConnect name first_fragment last_fragment =
     \<lparr>stream_name = name, start_fragment = first_fragment, end_fragment = last_fragment,
      last_good_fragment_tags = None, past_end_fragment = False,
      from_audio_fragments = [], to_audio_fragments = [],
      to_customer_audio = None, from_customer_audio = None\<rparr>"

text \<open>\<^verbatim>\<open>if data:\<close> on what a channel extraction returned: \<^verbatim>\<open>None\<close> and empty bytes are false.\<close>

fun truthy :: "bytes option \<Rightarrow> bool" where
  "truthy None = False"
| "truthy (Some bs) = (bs \<noteq> [])"

text \<open>
  The \<^verbatim>\<open>try\<close> block of \<^verbatim>\<open>on_fragment_arrived\<close>: the consumer as the block leaves it,
  and the exception that ended it, if one did. Assignments made before the
  exception stay.
\<close>

definition on_fragment_arrived_try :: "kvs_consumer \<Rightarrow> fragment \<Rightarrow> kvs_consumer \<times> exn option" where
  "on_fragment_arrived_try self fragment_dom =
     (case get_fragment_tags fragment_dom of
        Inl err \<Rightarrow> (self, Some err)
      | Inr tags \<Rightarrow>
          (let self1 = self\<lparr>last_good_fragment_tags := Some tags\<rparr> in
           case map_of tags ''AWS_KINESISVIDEO_FRAGMENT_NUMBER'' of
             None \<Rightarrow> (self1, Some KeyError)
           | Some number \<Rightarrow>
               (case int_of_str number of
                  Inl err \<Rightarrow> (self1, Some err)
                | Inr current_fragment \<Rightarrow>
                    if current_fragment > end_fragment self1
                    then (self1\<lparr>past_end_fragment := True\<rparr>, None)
                    else
                      (case save_connect_fragment_audio_track_from_customer fragment_dom of
                         Inl err \<Rightarrow> (self1, Some err)
                       | Inr from_data \<Rightarrow>
                           (let self2 =
                              (if truthy from_data
                               then self1\<lparr>from_audio_fragments :=
                                            from_audio_fragments self1 @ the from_data\<rparr>
                               else self1) in
                            case save_connect_fragment_audio_track_to_customer fragment_dom of
                              Inl err \<Rightarrow> (self2, Some err)
                            | Inr to_data \<Rightarrow>
                                ((if truthy to_data
                                  then self2\<lparr>to_audio_fragments :=
                                               to_audio_fragments self2 @ the to_data\<rparr>
                                  else self2), None))))))"

text \<open>\<^verbatim>\<open>except Exception as err: log.error(...)\<close>: the exception is logged and dropped.\<close>

definition on_fragment_arrived :: "kvs_consumer \<Rightarrow> fragment \<Rightarrow> kvs_consumer" where
  "on_fragment_arrived self fragment_dom = fst (on_fragment_arrived_try self fragment_dom)"

text \<open>
  \<^verbatim>\<open>convert_track_to_wav\<close> writes the track through the \<^verbatim>\<open>wave\<close> module into a
  \<^verbatim>\<open>BytesIO\<close>. The module is the parameter \<open>wave\<close>: from the channel count, the frame
  rate, the sample width and the frames to the bytes of the file, or an exception.
\<close>

type_synonym wave_module = "nat \<Rightarrow> nat \<Rightarrow> nat \<Rightarrow> bytes \<Rightarrow> bytes result"

definition convert_track_to_wav :: "wave_module \<Rightarrow> bytes \<Rightarrow> bytes result" where
  "convert_track_to_wav wave track_bytearray = wave 1 8000 2 track_bytearray"

text \<open>The \<^verbatim>\<open>try\<close> block of \<^verbatim>\<open>on_stream_read_complete\<close>, in the same form.\<close>

definition on_stream_read_complete_try :: "wave_module \<Rightarrow> kvs_consumer \<Rightarrow> kvs_consumer \<times> exn option" where
  "on_stream_read_complete_try wave self =
     (case (if length (to_audio_fragments self) > 0
            then (case convert_track_to_wav wave (to_audio_fragments self) of
                    Inl exc \<Rightarrow> Inl exc
                  | Inr wav \<Rightarrow> Inr (self\<lparr>to_customer_audio := Some wav\<rparr>))
            else Inr self) of
        Inl exc \<Rightarrow> (self, Some exc)
      | Inr self1 \<Rightarrow>
          if length (from_audio_fragments self1) > 0
          then (case convert_track_to_wav wave (from_audio_fragments self1) of
                  Inl exc \<Rightarrow> (self1, Some exc)
                | Inr wav \<Rightarrow> (self1\<lparr>from_customer_audio := Some wav\<rparr>, None))
          else (self1, None))"

text \<open>The \<^verbatim>\<open>except\<close> clause logs; the \<^verbatim>\<open>finally\<close> clause sets the flag.\<close>

definition on_stream_read_complete :: "wave_module \<Rightarrow> kvs_consumer \<Rightarrow> kvs_consumer" where
  "on_stream_read_complete wave self =
     (fst (on_stream_read_complete_try wave self))\<lparr>past_end_fragment := True\<rparr>"

text \<open>\<^verbatim>\<open>on_stream_read_exception\<close> logs the error with the last tags and changes nothing.\<close>

definition on_stream_read_exception :: "kvs_consumer \<Rightarrow> exn \<Rightarrow> kvs_consumer" where
  "on_stream_read_exception self error = self"

text \<open>
  The call-backs that the thread of the consumer library invokes, one at a time and
  in this order, once \<^verbatim>\<open>stream_consumer.start()\<close> has run.
\<close>

datatype kvs_event =
    FragmentArrived fragment
  | StreamReadComplete
  | StreamReadException exn

fun callback :: "wave_module \<Rightarrow> kvs_consumer \<Rightarrow> kvs_event \<Rightarrow> kvs_consumer" where
  "callback wave self (FragmentArrived fragment_dom) = on_fragment_arrived self fragment_dom"
| "callback wave self StreamReadComplete = on_stream_read_complete wave self"
| "callback wave self (StreamReadException error) = on_stream_read_exception self error"

text \<open>
  The wait at the end of \<^verbatim>\<open>service_loop\<close>,
  \<^verbatim>\<open>while not self.past_end_fragment: time.sleep(1)\<close>, runs beside the library's thread.
  It returns at a poll that finds the flag set; between the call-back that set the
  flag and that poll the thread may have run further call-backs, \<open>lag\<close> of them at
  most here. When the thread has delivered all its events and the flag is still
  unset, the wait never returns: the result is \<open>None\<close>. A call-back is taken to run
  to its end before the caller looks at the consumer.
\<close>

fun await_past_end :: "wave_module \<Rightarrow> kvs_consumer \<Rightarrow> kvs_event list \<Rightarrow> nat \<Rightarrow> kvs_consumer option" where
  "await_past_end wave self [] lag = (if past_end_fragment self then Some self else None)"
| "await_past_end wave self (ev # evs) lag =
     (if past_end_fragment self
      then (case lag of 0 \<Rightarrow> Some self
            | Suc lag' \<Rightarrow> await_past_end wave (callback wave self ev) evs lag')
      else await_past_end wave (callback wave self ev) evs lag)"

text \<open>
  \<^verbatim>\<open>service_loop\<close>. The transport (the data endpoint, the media client, \<^verbatim>\<open>get_media\<close>,
  the library's thread) is the parameter \<open>transport\<close>: for a stream name and a start
  fragment it raises during set-up or gives the events the thread delivers, with the
  lag of the waiting poll.
\<close>

type_synonym transport = "string \<Rightarrow> int \<Rightarrow> (kvs_event list \<times> nat) result"

definition service_loop :: "transport \<Rightarrow> wave_module \<Rightarrow> kvs_consumer \<Rightarrow> kvs_consumer option result" where
  "service_loop media wave self =
     (case media (stream_name self) (start_fragment self) of
        Inl exc \<Rightarrow> Inl exc
      | Inr (events, lag) \<Rightarrow> Inr (await_past_end wave self events lag))"

section \<open>The batch handler (\<^verbatim>\<open>vmx_to_s3.py\<close>)\<close>

text \<open>
  What the handler reaches outside itself: the module's configuration, the decoding
  of a record's data (\<^verbatim>\<open>json.loads(base64.b64decode(data).decode("utf-8"))\<close>), the
  rendering of a non-string value in an f-string, the transport and the \<^verbatim>\<open>wave\<close>
  module of the consumer, the clock (year, month and day as \<^verbatim>\<open>strftime\<close> gives them)
  and \<^verbatim>\<open>S3_CLIENT.put_object\<close> (bucket, key, body, content type and tagging; it
  raises or not). The transport, the clock and the store may answer differently for
  each record, so they take the record's number.
\<close>

record env =
  RECORDING_PATH :: string
  BUCKET_NAME :: string
  decode_data :: "json \<Rightarrow> json result"
  repr :: "json \<Rightarrow> string"
  kinesis_video :: "nat \<Rightarrow> transport"
  wave :: wave_module
  utc_today :: "nat \<Rightarrow> string \<times> string \<times> string"
  put_object :: "nat \<Rightarrow> string \<Rightarrow> string \<Rightarrow> bytes \<Rightarrow> string \<Rightarrow> string \<Rightarrow> exn option"

definition AUDIO_MIME_TYPE :: string where
  "AUDIO_MIME_TYPE = ''audio/x-wav''"

text \<open>
  The calls the handler makes on the consumer class and on the store, in order. The
  source keeps no such list; it is here so that a statement can say which calls a
  record caused.
\<close>

datatype call =
    NewConsumer string int int
  | PutObject string string bytes string string

text \<open>The local variables of \<^verbatim>\<open>lambda_handler\<close> that live across the records.\<close>

record handler_state =
  response_container :: "(string \<times> string) list"
  total_record_count :: nat
  processed_record_count :: nat
  calls :: "call list"

text \<open>\<^verbatim>\<open>d[k] = v\<close> on a dict kept as its items in insertion order.\<close>

fun dict_set :: "('k \<times> 'v) list \<Rightarrow> 'k \<Rightarrow> 'v \<Rightarrow> ('k \<times> 'v) list" where
  "dict_set [] k v = [(k, v)]"
| "dict_set ((k', v') # kvs) k v =
     (if k' = k then (k, v) # kvs else (k', v') # dict_set kvs k v)"

definition record_label :: "nat \<Rightarrow> string" where
  "record_label n = ''Record #'' @ dec n @ '' result''"

text \<open>\<^verbatim>\<open>response_container[f"Record #{total_record_count} result"] = text\<close>.\<close>

definition set_result :: "handler_state \<Rightarrow> string \<Rightarrow> handler_state" where
  "set_result st text =
     st\<lparr>response_container :=
          dict_set (response_container st) (record_label (total_record_count st)) text\<rparr>"

definition count_processed :: "handler_state \<Rightarrow> handler_state" where
  "count_processed st = st\<lparr>processed_record_count := processed_record_count st + 1\<rparr>"

subsection \<open>The stages of one record\<close>

text \<open>Lines 52 to 55: the record's data, decoded, and its contact id.\<close>

definition extract_record :: "env \<Rightarrow> json \<Rightarrow> (json \<times> json) result" where
  "extract_record env record =
     try_bind (py_getitem record ''kinesis'') (\<lambda>kinesis.
     try_bind (py_getitem kinesis ''data'') (\<lambda>data.
     try_bind (decode_data env data) (\<lambda>vm_record.
     try_bind (py_getitem vm_record ''ContactId'') (\<lambda>current_contact_id.
     Inr (vm_record, current_contact_id)))))"

text \<open>Line 65: \<^verbatim>\<open>vm_record["Attributes"].get("vm_flag", "99")\<close>.\<close>

definition vm_flag_of :: "json \<Rightarrow> json result" where
  "vm_flag_of vm_record =
     try_bind (py_getitem vm_record ''Attributes'') (\<lambda>attributes.
     py_get attributes ''vm_flag'' (JStr ''99''))"

text \<open>
  Line 96: \<^verbatim>\<open>stream_arn[stream_arn.index("/") + 1 : stream_arn.rindex("/")]\<close>. A list
  has \<^verbatim>\<open>index\<close> but no \<^verbatim>\<open>rindex\<close>; the other values have neither.
\<close>

fun stream_name_of :: "json \<Rightarrow> string result" where
  "stream_name_of (JStr stream_arn) =
     try_bind (str_index stream_arn CHR ''/'') (\<lambda>i.
     try_bind (str_rindex stream_arn CHR ''/'') (\<lambda>j.
     Inr (slice stream_arn (i + 1) j)))"
| "stream_name_of (JArr xs) = (if JStr ''/'' \<in> set xs then Inl AttributeError else Inl ValueError)"
| "stream_name_of _ = Inl AttributeError"

text \<open>\<^verbatim>\<open>vm_record["Recordings"][0][key]\<close>.\<close>

definition recording_field :: "json \<Rightarrow> string \<Rightarrow> json result" where
  "recording_field vm_record key =
     try_bind (py_getitem vm_record ''Recordings'') (\<lambda>recordings.
     try_bind (py_getitem_int recordings 0) (\<lambda>recording.
     py_getitem recording key))"

text \<open>Lines 95 to 99: the stream name and the two fragment numbers.\<close>

definition kvs_info :: "json \<Rightarrow> (string \<times> int \<times> int) result" where
  "kvs_info vm_record =
     try_bind (recording_field vm_record ''Location'') (\<lambda>stream_arn.
     try_bind (stream_name_of stream_arn) (\<lambda>stream.
     try_bind (try_bind (recording_field vm_record ''FragmentStartNumber'') py_int) (\<lambda>fragment_start.
     try_bind (try_bind (recording_field vm_record ''FragmentStopNumber'') py_int) (\<lambda>fragment_stop.
     Inr (stream, fragment_start, fragment_stop)))))"

text \<open>
  Lines 111 to 116: the tagging string. The value of
  \<^verbatim>\<open>attribute_tag_container.rstrip("&")\<close> is not assigned to anything.
\<close>

definition add_tag :: "(json \<Rightarrow> string) \<Rightarrow> string \<Rightarrow> string \<times> json \<Rightarrow> string" where
  "add_tag rp attribute_tag_container kv =
     (if startswith (fst kv) ''vm_''
      then attribute_tag_container @ fst kv @ ''='' @ py_str rp (snd kv) @ ''&''
      else attribute_tag_container)"

definition vm_tags :: "env \<Rightarrow> json \<Rightarrow> string result" where
  "vm_tags env vm_record =
     try_bind (py_get vm_record ''Attributes'' (JObj [])) (\<lambda>attribute_data.
     try_bind (py_items attribute_data) (\<lambda>items.
     (let attribute_tag_container = foldl (add_tag (repr env)) [] items;
          unused = rstrip attribute_tag_container ''&''
      in Inr attribute_tag_container)))"

text \<open>
  Lines 128 to 171. An exception anywhere in the block gives the record the text
  of line 169. \<^verbatim>\<open>s3_base_path + current_contact_id\<close> raises a \<^verbatim>\<open>TypeError\<close> when the
  contact id is not a string, and \<^verbatim>\<open>audio_file.getvalue()\<close> an \<^verbatim>\<open>AttributeError\<close> when
  the consumer's \<^verbatim>\<open>from_customer_audio\<close> is still \<^verbatim>\<open>None\<close>; both come before
  \<^verbatim>\<open>put_object\<close> is called. When \<^verbatim>\<open>service_loop\<close> never returns, neither does the
  handler: the result is \<open>None\<close>.
\<close>

definition write_failed :: "env \<Rightarrow> handler_state \<Rightarrow> json \<Rightarrow> handler_state" where
  "write_failed env st current_contact_id =
     set_result st (''ContactID: '' @ py_str (repr env) current_contact_id
                    @ '' - Failed to write audio to S3'')"

definition upload :: "env \<Rightarrow> handler_state \<Rightarrow> json \<Rightarrow> string \<Rightarrow> int \<Rightarrow> int \<Rightarrow> string
    \<Rightarrow> handler_state option" where
  "upload env st current_contact_id stream fragment_start fragment_stop attribute_tag_container =
     (let n = total_record_count st;
          st1 = st\<lparr>calls := calls st @ [NewConsumer stream fragment_start fragment_stop]\<rparr>
      in case service_loop (kinesis_video env n) (wave env)
                (KvsPythonConsumerConnect stream fragment_start fragment_stop) of
           Inl exc \<Rightarrow> Some (write_failed env st1 current_contact_id)
         | Inr None \<Rightarrow> None
         | Inr (Some processor) \<Rightarrow>
             (let audio_file = from_customer_audio processor;
                  (year, month, day) = utc_today env n;
                  s3_base_path = RECORDING_PATH env @ year @ ''/'' @ month @ ''/'' @ day @ ''/''
              in case current_contact_id of
                   JStr contact \<Rightarrow>
                     (let s3_path = s3_base_path @ contact @ ''.wav''
                      in case audio_file of
                           None \<Rightarrow> Some (write_failed env st1 current_contact_id)
                         | Some body \<Rightarrow>
                             (let st2 = st1\<lparr>calls := calls st1 @
                                    [PutObject (BUCKET_NAME env) s3_path body AUDIO_MIME_TYPE
                                       attribute_tag_container]\<rparr>
                              in case put_object env n (BUCKET_NAME env) s3_path body
                                        AUDIO_MIME_TYPE attribute_tag_container of
                                   Some exc \<Rightarrow> Some (write_failed env st2 current_contact_id)
                                 | None \<Rightarrow> Some (count_processed st2)))
                 | _ \<Rightarrow> Some (write_failed env st1 current_contact_id)))"

text \<open>Lines 94 to 171: what a record whose flag is \<^verbatim>\<open>"1"\<close> goes through.\<close>

definition process_voicemail :: "env \<Rightarrow> handler_state \<Rightarrow> json \<Rightarrow> json \<Rightarrow> handler_state option" where
  "process_voicemail env st vm_record current_contact_id =
     (case kvs_info vm_record of
        Inl exc \<Rightarrow> Some (set_result st ''Failed to extract KVS info'')
      | Inr (stream, fragment_start, fragment_stop) \<Rightarrow>
          (case vm_tags env vm_record of
             Inl exc \<Rightarrow> Some (set_result st ''Failed to extract vm tags'')
           | Inr attribute_tag_container \<Rightarrow>
               upload env st current_contact_id stream fragment_start fragment_stop
                 attribute_tag_container))"

text \<open>The body of the \<^verbatim>\<open>for\<close> loop, lines 49 to 171.\<close>

definition process_record :: "env \<Rightarrow> handler_state \<Rightarrow> json \<Rightarrow> handler_state option" where
  "process_record env st0 record =
     (let st = st0\<lparr>total_record_count := total_record_count st0 + 1\<rparr>
      in case extract_record env record of
           Inl exc \<Rightarrow> Some (set_result st ''Failed to extract record and/or decode'')
         | Inr (vm_record, current_contact_id) \<Rightarrow>
             (case vm_flag_of vm_record of
                Inl exc \<Rightarrow>
                  Some (set_result st
                    (''ContactID: '' @ py_str (repr env) current_contact_id
                     @ '' - IGNORE - An error occurred whilst evaluating Voicemail Flag''))
              | Inr vm_flag \<Rightarrow>
                  if vm_flag = JStr ''1'' then
                    process_voicemail env st vm_record current_contact_id
                  else if vm_flag = JStr ''0'' then
                    Some (count_processed (set_result st
                      (''ContactID: '' @ py_str (repr env) current_contact_id
                       @ '' - IGNORE - voicemail already processed'')))
                  else
                    Some (count_processed (set_result st
                      (''ContactID: '' @ py_str (repr env) current_contact_id
                       @ '' - IGNORE - voicemail flag not valid'')))))"

subsection \<open>The loop and the response\<close>

fun process_records :: "env \<Rightarrow> handler_state \<Rightarrow> json list \<Rightarrow> handler_state option" where
  "process_records env st [] = Some st"
| "process_records env st (record # records) =
     (case process_record env st record of
        None \<Rightarrow> None
      | Some st' \<Rightarrow> process_records env st' records)"

definition initial_state :: handler_state where
  "initial_state =
     \<lparr>response_container = [], total_record_count = 0, processed_record_count = 0, calls = []\<rparr>"

record response_body =
  status :: string
  recordResults :: "(string \<times> string) list"

record response =
  statusCode :: int
  body :: response_body

definition response_of :: "handler_state \<Rightarrow> response" where
  "response_of st =
     \<lparr>statusCode = 200,
      body = \<lparr>status = ''Complete. Processed '' @ dec (processed_record_count st) @ '' of ''
                        @ dec (total_record_count st) @ '' records.'',
              recordResults = response_container st\<rparr>\<rparr>"

text \<open>
  \<^verbatim>\<open>lambda_handler(event, context)\<close>: \<open>Inl\<close> an exception that leaves the handler,
  \<open>Inr None\<close> a run that never returns, \<open>Inr (Some (response, calls))\<close> the
  response returned and the calls made on the way. \<^verbatim>\<open>event["Records"]\<close> and the
  start of the iteration are outside every \<^verbatim>\<open>try\<close>.
\<close>

definition lambda_handler :: "env \<Rightarrow> json \<Rightarrow> (response \<times> call list) option result" where
  "lambda_handler env event =
     try_bind (py_getitem event ''Records'') (\<lambda>records.
     try_bind (py_iter records) (\<lambda>rs.
     Inr (map_option (\<lambda>st. (response_of st, calls st))
            (process_records env initial_state rs))))"

section \<open>A sample world\<close>

text \<open>
  Concrete fragments, streams, records and collaborators on which the statements
  below are evaluated. The stream \<^verbatim>\<open>bounded\<close> delivers the fragments numbered 100
  and 101 and nothing more; the stream \<^verbatim>\<open>archive\<close> delivers fragment 100 and then
  the end of the stream; the stream \<^verbatim>\<open>broken\<close> delivers a read exception only.
\<close>

definition fragment_number_tag :: "string \<Rightarrow> (string \<times> string) list" where
  "fragment_number_tag number = [(''AWS_KINESISVIDEO_FRAGMENT_NUMBER'', number)]"

definition bytes_A :: bytes where
  "bytes_A = [1, 2, 3, 4]"

definition bytes_B :: bytes where
  "bytes_B = [7, 8]"

definition fragment_100 :: fragment where
  "fragment_100 =
     \<lparr>get_fragment_tags = Inr (fragment_number_tag ''100''),
      save_connect_fragment_audio_track_from_customer = Inr (Some bytes_A),
      save_connect_fragment_audio_track_to_customer = Inr None\<rparr>"

definition fragment_101 :: fragment where
  "fragment_101 =
     \<lparr>get_fragment_tags = Inr (fragment_number_tag ''101''),
      save_connect_fragment_audio_track_from_customer = Inr (Some bytes_B),
      save_connect_fragment_audio_track_to_customer = Inr (Some bytes_B)\<rparr>"

text \<open>A fragment in range whose second channel extraction raises.\<close>

definition fragment_half :: fragment where
  "fragment_half =
     \<lparr>get_fragment_tags = Inr (fragment_number_tag ''99''),
      save_connect_fragment_audio_track_from_customer = Inr (Some bytes_B),
      save_connect_fragment_audio_track_to_customer = Inl (External ''corrupt track'')\<rparr>"

text \<open>A fragment whose tags cannot be read.\<close>

definition fragment_corrupt :: fragment where
  "fragment_corrupt =
     \<lparr>get_fragment_tags = Inl (External ''corrupt fragment''),
      save_connect_fragment_audio_track_from_customer = Inr (Some bytes_B),
      save_connect_fragment_audio_track_to_customer = Inr (Some bytes_B)\<rparr>"

definition sample_wave :: wave_module where
  "sample_wave nchannels framerate sampwidth frames = Inr (82 # 73 # 70 # 70 # frames)"

definition failing_wave :: wave_module where
  "failing_wave nchannels framerate sampwidth frames = Inl (External ''wave.Error'')"

definition sample_transport :: "nat \<Rightarrow> transport" where
  "sample_transport lag name first_fragment =
     (if name = ''bounded'' then Inr ([FragmentArrived fragment_100, FragmentArrived fragment_101], lag)
      else if name = ''archive'' then Inr ([FragmentArrived fragment_100, StreamReadComplete], lag)
      else if name = ''broken'' then Inr ([StreamReadException (External ''read failed'')], lag)
      else Inl (External ''ResourceNotFoundException''))"

definition vm_payload :: "string \<Rightarrow> string \<Rightarrow> string \<Rightarrow> json" where
  "vm_payload contact flag location =
     JObj [(''ContactId'', JStr contact),
           (''Attributes'', JObj [(''vm_flag'', JStr flag), (''vm_lang'', JStr ''en-NZ''),
                                 (''queue'', JStr ''support'')]),
           (''Recordings'', JArr [JObj [(''Location'', JStr location),
                                        (''FragmentStartNumber'', JStr ''99''),
                                        (''FragmentStopNumber'', JStr ''100'')]])]"

text \<open>A payload whose attributes carry no flag.\<close>

definition unflagged_payload :: json where
  "unflagged_payload =
     JObj [(''ContactId'', JStr ''c-8''),
           (''Attributes'', JObj [(''queue'', JStr ''support'')]),
           (''Recordings'', JArr [])]"

text \<open>A payload with a contact id and nothing else.\<close>

definition bare_payload :: json where
  "bare_payload = JObj [(''ContactId'', JStr ''c-9'')]"

text \<open>The sample decoder reads a record's data as the name of a prepared payload.\<close>

definition sample_decode :: "json \<Rightarrow> json result" where
  "sample_decode data =
     (if data = JStr ''bounded'' then Inr (vm_payload ''c-1'' ''1'' ''arn:aws:kinesisvideo:stream/bounded/17'')
      else if data = JStr ''archive'' then Inr (vm_payload ''c-2'' ''1'' ''arn:aws:kinesisvideo:stream/archive/17'')
      else if data = JStr ''broken'' then Inr (vm_payload ''c-3'' ''1'' ''arn:aws:kinesisvideo:stream/broken/17'')
      else if data = JStr ''done'' then Inr (vm_payload ''c-4'' ''0'' ''arn:aws:kinesisvideo:stream/archive/17'')
      else if data = JStr ''odd'' then Inr (vm_payload ''c-5'' ''yes'' ''arn:aws:kinesisvideo:stream/archive/17'')
      else if data = JStr ''noslash'' then Inr (vm_payload ''c-6'' ''1'' ''archive'')
      else if data = JStr ''oneslash'' then Inr (vm_payload ''c-7'' ''1'' ''stream/archive'')
      else if data = JStr ''unflagged'' then Inr unflagged_payload
      else if data = JStr ''bare'' then Inr bare_payload
      else Inl ValueError)"

definition kinesis_record :: "string \<Rightarrow> json" where
  "kinesis_record name = JObj [(''kinesis'', JObj [(''data'', JStr name)])]"

definition sample_env :: "nat \<Rightarrow> env" where
  "sample_env lag =
     \<lparr>RECORDING_PATH = ''voicemail/'', BUCKET_NAME = ''vm-bucket'',
      decode_data = sample_decode, repr = (\<lambda>v. ''?''),
      kinesis_video = (\<lambda>n. sample_transport lag), wave = sample_wave,
      utc_today = (\<lambda>n. (''2024'', ''02'', ''29'')),
      put_object = (\<lambda>n bucket key content content_type tagging. None)\<rparr>"

text \<open>A world whose streams all end with the stream-complete event, and whose store refuses.\<close>

definition closing_transport :: transport where
  "closing_transport name first_fragment =
     (if name = ''bounded''
      then Inr ([FragmentArrived fragment_100, FragmentArrived fragment_101, StreamReadComplete], 1)
      else if name = ''archive'' then Inr ([FragmentArrived fragment_100, StreamReadComplete], 0)
      else Inl (External ''ResourceNotFoundException''))"

definition refusing_env :: env where
  "refusing_env =
     \<lparr>RECORDING_PATH = ''voicemail/'', BUCKET_NAME = ''vm-bucket'',
      decode_data = sample_decode, repr = (\<lambda>v. ''?''),
      kinesis_video = (\<lambda>n. closing_transport), wave = sample_wave,
      utc_today = (\<lambda>n. (''2024'', ''02'', ''29'')),
      put_object = (\<lambda>n bucket key content content_type tagging. Some (External ''AccessDenied''))\<rparr>"

definition batch_event :: "string list \<Rightarrow> json" where
  "batch_event names = JObj [(''Records'', JArr (map kinesis_record names))]"

text \<open>Two fragments whose numbers lie beyond the 53 bits of a double's mantissa.\<close>

definition fragment_at_bound :: fragment where
  "fragment_at_bound =
     \<lparr>get_fragment_tags = Inr (fragment_number_tag ''9007199254740992''),
      save_connect_fragment_audio_track_from_customer = Inr (Some bytes_A),
      save_connect_fragment_audio_track_to_customer = Inr None\<rparr>"

definition fragment_past_bound :: fragment where
  "fragment_past_bound =
     \<lparr>get_fragment_tags = Inr (fragment_number_tag ''9007199254740993''),
      save_connect_fragment_audio_track_from_customer = Inr (Some bytes_A),
      save_connect_fragment_audio_track_to_customer = Inr None\<rparr>"

text \<open>A payload whose fragment numbers lie beyond those 53 bits as well.\<close>

definition long_range_payload :: json where
  "long_range_payload =
     JObj [(''ContactId'', JStr ''c-10''),
           (''Attributes'', JObj [(''vm_flag'', JStr ''1'')]),
           (''Recordings'',
            JArr [JObj [(''Location'', JStr ''arn:aws:kinesisvideo:stream/archive/17''),
                        (''FragmentStartNumber'', JStr ''9007199254740991''),
                        (''FragmentStopNumber'', JStr ''9007199254740992'')]])]"

text \<open>The number that a string of decimal digits denotes, read from the left.\<close>

definition decimal_value :: "nat \<Rightarrow> string \<Rightarrow> nat" where
  "decimal_value acc s = foldl (\<lambda>a c. 10 * a + the (digit_of c)) acc s"

section \<open>Runs of the consumer\<close>

text \<open>The consumer after its call-back has received these fragments, in order.\<close>

definition arrive :: "kvs_consumer \<Rightarrow> fragment list \<Rightarrow> kvs_consumer" where
  "arrive self fragments = foldl on_fragment_arrived self fragments"

text \<open>The consumer after the library's thread has run these call-backs, in order.\<close>

definition deliver :: "wave_module \<Rightarrow> kvs_consumer \<Rightarrow> kvs_event list \<Rightarrow> kvs_consumer" where
  "deliver w self events = foldl (callback w) self events"

text \<open>
  The bytes that a fragment adds to the two buffers of a consumer whose end fragment
  is \<open>bound\<close>: what \<^verbatim>\<open>on_fragment_arrived\<close> leaves in the buffers of a new consumer.
\<close>

definition from_added :: "int \<Rightarrow> fragment \<Rightarrow> bytes" where
  "from_added bound fragment_dom =
     from_audio_fragments (on_fragment_arrived (KvsPythonConsumerConnect [] 0 bound) fragment_dom)"

definition to_added :: "int \<Rightarrow> fragment \<Rightarrow> bytes" where
  "to_added bound fragment_dom =
     to_audio_fragments (on_fragment_arrived (KvsPythonConsumerConnect [] 0 bound) fragment_dom)"

text \<open>
  How often the flag goes from unset to set along a run: \<open>rises\<close> counts the changes
  from \<open>False\<close> to \<open>True\<close> in the flags after each event, \<open>previous\<close> being the flag
  before the first.
\<close>

fun rises :: "bool \<Rightarrow> bool list \<Rightarrow> nat" where
  "rises previous [] = 0"
| "rises previous (flag # flags) = (if \<not> previous \<and> flag then 1 else 0) + rises flag flags"

fun flags_after :: "wave_module \<Rightarrow> kvs_consumer \<Rightarrow> kvs_event list \<Rightarrow> bool list" where
  "flags_after w self [] = []"
| "flags_after w self (ev # evs) =
     past_end_fragment (callback w self ev) # flags_after w (callback w self ev) evs"

definition terminations :: "wave_module \<Rightarrow> kvs_consumer \<Rightarrow> kvs_event list \<Rightarrow> nat" where
  "terminations w self events = rises (past_end_fragment self) (flags_after w self events)"

section \<open>Reading integers\<close>

lemma digit_of_digit_char: "d < 10 \<Longrightarrow> digit_of (digit_char d) = Some d"
  by (simp add: digit_of_def digit_char_def Let_def)

lemma digit_of_not_space: "digit_of c = Some d \<Longrightarrow> \<not> py_isspace c"
  by (auto simp add: digit_of_def py_isspace_def Let_def split: if_splits)

lemma digit_of_special [simp]:
  "digit_of CHR ''_'' = None" "digit_of CHR ''-'' = None" "digit_of CHR ''+'' = None"
  by (simp_all add: digit_of_def)

lemma int_digits_plain:
  "\<forall>c \<in> set ds. digit_of c \<noteq> None \<Longrightarrow> int_digits acc ds = Some (decimal_value acc ds)"
proof (induction acc ds rule: int_digits.induct)
  case (1 acc)
  show ?case by (simp add: decimal_value_def)
next
  case (2 acc c)
  then show ?case by (auto simp add: decimal_value_def)
next
  case (3 acc c d ds)
  from "3.prems" obtain v where v: "digit_of c = Some v" by auto
  then have ne: "c \<noteq> CHR ''_''" by auto
  from "3.IH"(2) [OF ne v] "3.prems"
  have "int_digits (10 * acc + v) (d # ds) = Some (decimal_value (10 * acc + v) (d # ds))"
    by simp
  with v ne show ?case by (simp add: decimal_value_def)
qed

lemma strip_plain:
  assumes "\<forall>c \<in> set s. \<not> py_isspace c"
  shows "strip s = s"
proof -
  have "dropWhile py_isspace xs = xs" if "\<forall>c \<in> set xs. \<not> py_isspace c" for xs
    using that by (cases xs) simp_all
  from this [of s] this [of "rev s"] assms show ?thesis by (simp add: strip_def)
qed

lemma dec_digits: "\<forall>c \<in> set (dec n). \<exists>d. digit_of c = Some d"
proof (induction n rule: dec.induct)
  case (1 n)
  show ?case
  proof (cases "n < 10")
    case True
    then show ?thesis by (subst dec.simps) (simp add: digit_of_digit_char)
  next
    case False
    with 1 show ?thesis by (subst dec.simps) (auto simp add: digit_of_digit_char)
  qed
qed

lemma dec_nonempty: "dec n \<noteq> []"
  by (subst dec.simps) simp

lemma decimal_value_dec: "decimal_value 0 (dec n) = n"
proof (induction n rule: dec.induct)
  case (1 n)
  show ?case
  proof (cases "n < 10")
    case True
    then show ?thesis by (subst dec.simps) (simp add: decimal_value_def digit_of_digit_char)
  next
    case False
    with 1 have "decimal_value 0 (dec (n div 10)) = n div 10" by simp
    with False show ?thesis
      by (subst dec.simps) (simp add: decimal_value_def digit_of_digit_char)
  qed
qed

text \<open>
  The decimal text of a natural number is read back exactly, whatever its size,
  as long as it stays within the limit on the number of digits.
\<close>

lemma dec_no_underscore: "filter (\<lambda>c. c \<noteq> CHR ''_'') (dec n) = dec n"
proof -
  have "\<forall>c \<in> set (dec n). c \<noteq> CHR ''_''"
    using dec_digits [of n] by auto
  then show ?thesis by simp
qed

lemma int_of_str_dec:
  assumes "length (dec n) \<le> max_str_digits"
  shows "int_of_str (dec n) = Inr (int n)"
proof -
  obtain c cs where s: "dec n = c # cs" using dec_nonempty [of n] by (cases "dec n") auto
  have digs: "\<forall>x \<in> set (c # cs). \<exists>d. digit_of x = Some d" using dec_digits [of n] s by simp
  then obtain v where v: "digit_of c = Some v" by auto
  have "\<forall>x \<in> set (dec n). \<not> py_isspace x" using dec_digits [of n] digit_of_not_space by blast
  then have st: "strip (dec n) = c # cs" using s by (simp add: strip_plain)
  have lim: "\<not> length (filter (\<lambda>c. c \<noteq> CHR ''_'') (c # cs)) > max_str_digits"
    using assms dec_no_underscore [of n] s by simp
  have "int_digits v cs = Some (decimal_value v cs)" using digs by (intro int_digits_plain) auto
  moreover have "decimal_value v cs = decimal_value 0 (c # cs)"
    using v by (simp add: decimal_value_def)
  ultimately have "unsigned_of_str (c # cs) = Some n"
    using v s lim decimal_value_dec [of n] by (simp add: unsigned_of_str_def del: filter.simps)
  moreover have "c \<noteq> CHR ''-''" "c \<noteq> CHR ''+''" using v by auto
  ultimately show ?thesis using st by (simp add: int_of_str_def)
qed

section \<open>Unfolding on concrete inputs\<close>

lemmas sample_defs =
  sample_env_def sample_transport_def sample_decode_def sample_wave_def vm_payload_def
  kinesis_record_def batch_event_def fragment_100_def fragment_101_def fragment_number_tag_def
  bytes_A_def bytes_B_def unflagged_payload_def fragment_half_def fragment_corrupt_def
  bare_payload_def closing_transport_def refusing_env_def long_range_payload_def

lemmas handler_defs =
  lambda_handler_def process_record_def process_voicemail_def upload_def write_failed_def
  extract_record_def vm_flag_of_def kvs_info_def recording_field_def vm_tags_def add_tag_def
  set_result_def count_processed_def record_label_def response_of_def initial_state_def
  try_bind_def startswith_def rstrip_def AUDIO_MIME_TYPE_def

lemmas consumer_defs =
  service_loop_def KvsPythonConsumerConnect_def on_fragment_arrived_def
  on_fragment_arrived_try_def on_stream_read_complete_def on_stream_read_complete_try_def
  on_stream_read_exception_def convert_track_to_wav_def

lemmas int_defs =
  int_of_str_def strip_def py_isspace_def unsigned_of_str_def digit_of_def max_str_digits_def
  str_index_def str_rindex_def slice_def

lemma dec_small:
  "dec 0 = ''0''" "dec (Suc 0) = ''1''" "dec (Suc (Suc 0)) = ''2''"
  "dec (Suc (Suc (Suc 0))) = ''3''"
proof -
  have "dec 0 = ''0''" "dec 1 = ''1''" "dec 2 = ''2''" "dec 3 = ''3''"
    by (simp_all add: dec.simps digit_char_def char_of_def bit_0)
  then show "dec 0 = ''0''" "dec (Suc 0) = ''1''" "dec (Suc (Suc 0)) = ''2''"
    "dec (Suc (Suc (Suc 0))) = ''3''"
    by (simp_all add: numeral_2_eq_2 numeral_3_eq_3)
qed

text \<open>
  What \<^verbatim>\<open>int\<close> refuses: a numeral behind a separator character that is not stripped,
  and a numeral of more digits than the limit.
\<close>

lemma int_of_str_separator: "int_of_str (CHR 0x1C # ''101'') = Inl ValueError"
  by (simp add: int_defs)

lemma int_of_str_beyond_limit:
  assumes "\<forall>c \<in> set s. \<exists>d. digit_of c = Some d" and "max_str_digits < length s"
  shows "int_of_str s = Inl ValueError"
proof -
  have ns: "\<forall>c \<in> set s. \<not> py_isspace c" using assms(1) digit_of_not_space by blast
  then have st: "strip s = s" by (rule strip_plain)
  have "\<forall>c \<in> set s. c \<noteq> CHR ''_''" using assms(1) by auto
  then have f: "filter (\<lambda>c. c \<noteq> CHR ''_'') s = s" by simp
  from assms(2) obtain c cs where s: "s = c # cs" by (cases s) auto
  from assms(1) s have "c \<noteq> CHR ''-''" "c \<noteq> CHR ''+''" by auto
  moreover from f assms(2) s have "unsigned_of_str (c # cs) = None"
    by (simp add: unsigned_of_str_def del: filter.simps)
  ultimately show ?thesis using st s by (simp add: int_of_str_def)
qed

section \<open>Properties of the consumer\<close>

subsection \<open>The termination flag\<close>

lemma on_fragment_arrived_flag:
  "past_end_fragment self \<Longrightarrow> past_end_fragment (on_fragment_arrived self fragment_dom)"
  by (simp add: on_fragment_arrived_def on_fragment_arrived_try_def Let_def
      split: sum.splits option.splits)

lemma on_stream_read_complete_flag:
  "past_end_fragment (on_stream_read_complete w self)"
  by (simp add: on_stream_read_complete_def)

lemma callback_flag:
  "past_end_fragment self \<Longrightarrow> past_end_fragment (callback w self ev)"
  by (cases ev) (simp_all add: on_fragment_arrived_flag on_stream_read_complete_flag
      on_stream_read_exception_def)

lemma await_past_end_set:
  "past_end_fragment self \<Longrightarrow>
   \<exists>c. await_past_end w self evs lag = Some c \<and> past_end_fragment c"
proof (induction evs arbitrary: self lag)
  case Nil
  then show ?case by simp
next
  case (Cons ev evs)
  show ?case
  proof (cases lag)
    case 0
    with Cons.prems show ?thesis by simp
  next
    case (Suc lag')
    from Cons.prems have "past_end_fragment (callback w self ev)" by (rule callback_flag)
    from Cons.IH [OF this, of lag'] Cons.prems Suc show ?thesis by simp
  qed
qed

lemma await_past_end_complete:
  "StreamReadComplete \<in> set evs \<Longrightarrow>
   \<exists>c. await_past_end w self evs lag = Some c \<and> past_end_fragment c"
proof (induction evs arbitrary: self lag)
  case Nil
  then show ?case by simp
next
  case (Cons ev evs)
  show ?case
  proof (cases "past_end_fragment self")
    case True
    then show ?thesis by (rule await_past_end_set)
  next
    case False
    show ?thesis
    proof (cases "ev = StreamReadComplete")
      case True
      have "past_end_fragment (callback w self ev)"
        using True by (simp add: on_stream_read_complete_flag)
      from await_past_end_set [OF this, of w evs lag] False show ?thesis by simp
    next
      case neq: False
      with Cons.prems have "StreamReadComplete \<in> set evs" by auto
      from Cons.IH [OF this, of "callback w self ev" lag] False show ?thesis by simp
    qed
  qed
qed

text \<open>
  Claim C4. Handling the stream-complete event sets the termination flag whatever
  the packaging of the two buffers did, an exception included; so once the
  transport delivers a stream-complete event, the wait of \<^verbatim>\<open>service_loop\<close> returns,
  with the flag set.
\<close>

theorem stream_complete_always_terminates:
  "past_end_fragment (on_stream_read_complete w self) \<and>
   (media (stream_name self) (start_fragment self) = Inr (evs, lag) \<and>
    StreamReadComplete \<in> set evs \<longrightarrow>
    (\<exists>c. service_loop media w self = Inr (Some c) \<and> past_end_fragment c))"
  using await_past_end_complete [of evs w self lag]
  by (auto simp add: on_stream_read_complete_flag service_loop_def)

theorem stream_complete_always_terminates_witness:
  "snd (on_stream_read_complete_try failing_wave
         ((KvsPythonConsumerConnect ''archive'' 99 100)\<lparr>to_audio_fragments := bytes_A\<rparr>))
     = Some (External ''wave.Error'') \<and>
   past_end_fragment (on_stream_read_complete failing_wave
         ((KvsPythonConsumerConnect ''archive'' 99 100)\<lparr>to_audio_fragments := bytes_A\<rparr>)) \<and>
   sample_transport 0 ''archive'' 99
     = Inr ([FragmentArrived fragment_100, StreamReadComplete], 0) \<and>
   StreamReadComplete \<in> set [FragmentArrived fragment_100, StreamReadComplete] \<and>
   (\<exists>c. service_loop (sample_transport 0) failing_wave
           ((KvsPythonConsumerConnect ''archive'' 99 100)\<lparr>to_audio_fragments := bytes_A\<rparr>)
         = Inr (Some c) \<and> past_end_fragment c)"
  using stream_complete_always_terminates
    [of failing_wave
        "(KvsPythonConsumerConnect ''archive'' 99 100)\<lparr>to_audio_fragments := bytes_A\<rparr>"
        "sample_transport 0" "[FragmentArrived fragment_100, StreamReadComplete]" 0]
  by (simp add: on_stream_read_complete_try_def KvsPythonConsumerConnect_def failing_wave_def
      convert_track_to_wav_def bytes_A_def sample_transport_def)

subsection \<open>The end of the range\<close>

text \<open>
  Claim C3. A fragment whose number reads as the integer \<open>f\<close> sets the flag of a
  consumer that has not terminated exactly when \<open>f\<close> is greater than the end bound,
  so a fragment at the bound is in range. Both sides of the comparison are unbounded
  integers, never floats: the decimal text of a natural number is read back as that
  number, without loss, up to the interpreter's limit of \<open>max_str_digits\<close> digits;
  and the end bound that the handler hands to the consumer is the integer that the
  text of \<^verbatim>\<open>FragmentStopNumber\<close> denotes.
\<close>

theorem past_end_iff_greater:
  assumes "get_fragment_tags fragment_dom = Inr tags"
    and "map_of tags ''AWS_KINESISVIDEO_FRAGMENT_NUMBER'' = Some number"
    and "int_of_str number = Inr f"
    and "\<not> past_end_fragment self"
  shows "(past_end_fragment (on_fragment_arrived self fragment_dom) \<longleftrightarrow> f > end_fragment self)
         \<and> (length (dec n) \<le> max_str_digits \<longrightarrow> int_of_str (dec n) = Inr (int n))
         \<and> (recording_field vm_record ''FragmentStopNumber'' = Inr (JStr stop) \<and>
            int_of_str stop = Inr b \<and> kvs_info vm_record = Inr (stream, a, b') \<longrightarrow>
              b' = b \<and> end_fragment (KvsPythonConsumerConnect stream a b') = b)"
proof -
  have 1: "past_end_fragment (on_fragment_arrived self fragment_dom) \<longleftrightarrow> f > end_fragment self"
    using assms
    by (simp add: on_fragment_arrived_def on_fragment_arrived_try_def Let_def
        split: sum.splits option.splits)
  have 2: "length (dec n) \<le> max_str_digits \<longrightarrow> int_of_str (dec n) = Inr (int n)"
    by (simp add: int_of_str_dec)
  have 3: "recording_field vm_record ''FragmentStopNumber'' = Inr (JStr stop) \<and>
            int_of_str stop = Inr b \<and> kvs_info vm_record = Inr (stream, a, b') \<longrightarrow>
              b' = b \<and> end_fragment (KvsPythonConsumerConnect stream a b') = b"
    by (auto simp add: kvs_info_def try_bind_def KvsPythonConsumerConnect_def
        split: sum.splits)
  from 1 2 3 show ?thesis by blast
qed

theorem past_end_iff_greater_witness:
  "get_fragment_tags fragment_past_bound = Inr (fragment_number_tag ''9007199254740993'') \<and>
   map_of (fragment_number_tag ''9007199254740993'') ''AWS_KINESISVIDEO_FRAGMENT_NUMBER''
     = Some ''9007199254740993'' \<and>
   int_of_str ''9007199254740993'' = Inr 9007199254740993 \<and>
   get_fragment_tags fragment_at_bound = Inr (fragment_number_tag ''9007199254740992'') \<and>
   map_of (fragment_number_tag ''9007199254740992'') ''AWS_KINESISVIDEO_FRAGMENT_NUMBER''
     = Some ''9007199254740992'' \<and>
   int_of_str ''9007199254740992'' = Inr 9007199254740992 \<and>
   \<not> past_end_fragment (KvsPythonConsumerConnect ''archive'' 1 9007199254740992) \<and>
   past_end_fragment
     (on_fragment_arrived (KvsPythonConsumerConnect ''archive'' 1 9007199254740992)
        fragment_past_bound) \<and>
   \<not> past_end_fragment
     (on_fragment_arrived (KvsPythonConsumerConnect ''archive'' 1 9007199254740992)
        fragment_at_bound) \<and>
   dec 9007199254740993 = ''9007199254740993'' \<and>
   length (dec 9007199254740993) \<le> max_str_digits \<and>
   int_of_str (dec 9007199254740993) = Inr 9007199254740993 \<and>
   recording_field long_range_payload ''FragmentStopNumber'' = Inr (JStr ''9007199254740992'') \<and>
   kvs_info long_range_payload = Inr (''archive'', 9007199254740991, 9007199254740992) \<and>
   end_fragment (KvsPythonConsumerConnect ''archive'' 9007199254740991 9007199254740992)
     = 9007199254740992"
proof -
  have p: "int_of_str ''9007199254740993'' = Inr 9007199254740993"
    by (simp add: int_defs)
  have q: "int_of_str ''9007199254740992'' = Inr 9007199254740992"
    by (simp add: int_defs)
  have t1: "get_fragment_tags fragment_past_bound = Inr (fragment_number_tag ''9007199254740993'')"
    by (simp add: fragment_past_bound_def)
  have t2: "get_fragment_tags fragment_at_bound = Inr (fragment_number_tag ''9007199254740992'')"
    by (simp add: fragment_at_bound_def)
  have m1: "map_of (fragment_number_tag ''9007199254740993'') ''AWS_KINESISVIDEO_FRAGMENT_NUMBER''
     = Some ''9007199254740993''"
    by (simp add: fragment_number_tag_def)
  have m2: "map_of (fragment_number_tag ''9007199254740992'') ''AWS_KINESISVIDEO_FRAGMENT_NUMBER''
     = Some ''9007199254740992''"
    by (simp add: fragment_number_tag_def)
  have fresh: "\<not> past_end_fragment (KvsPythonConsumerConnect ''archive'' 1 9007199254740992)"
    by (simp add: KvsPythonConsumerConnect_def)
  have e: "end_fragment (KvsPythonConsumerConnect ''archive'' 1 9007199254740992) = 9007199254740992"
    by (simp add: KvsPythonConsumerConnect_def)
  have d: "dec 9007199254740993 = ''9007199254740993''"
    by (simp add: dec.simps digit_char_def char_of_def bit_0)
  have l: "length (dec 9007199254740993) \<le> max_str_digits"
    by (simp add: d max_str_digits_def)
  have r: "recording_field long_range_payload ''FragmentStopNumber''
      = Inr (JStr ''9007199254740992'')"
    by (simp add: long_range_payload_def recording_field_def try_bind_def)
  have k: "kvs_info long_range_payload = Inr (''archive'', 9007199254740991, 9007199254740992)"
    by (simp add: long_range_payload_def kvs_info_def recording_field_def try_bind_def int_defs)
  note i1 = past_end_iff_greater [OF t1 m1 p fresh, of 9007199254740993 long_range_payload
      "''9007199254740992''" 9007199254740992 "''archive''" 9007199254740991 9007199254740992]
  note i2 = past_end_iff_greater [OF t2 m2 q fresh, of 9007199254740993 long_range_payload
      "''9007199254740992''" 9007199254740992 "''archive''" 9007199254740991 9007199254740992]
  from i1 e have c1: "past_end_fragment
     (on_fragment_arrived (KvsPythonConsumerConnect ''archive'' 1 9007199254740992)
        fragment_past_bound)" by simp
  from i2 e have c2: "\<not> past_end_fragment
     (on_fragment_arrived (KvsPythonConsumerConnect ''archive'' 1 9007199254740992)
        fragment_at_bound)" by simp
  from i1 l have c3: "int_of_str (dec 9007199254740993) = Inr 9007199254740993" by simp
  from i1 r q k have c4:
    "end_fragment (KvsPythonConsumerConnect ''archive'' 9007199254740991 9007199254740992)
     = 9007199254740992" by blast
  from t1 t2 m1 m2 p q fresh c1 c2 d l c3 r k c4 show ?thesis by blast
qed

section \<open>Properties of the handler\<close>

subsection \<open>The count of records\<close>

lemma process_record_total:
  "process_record env st record = Some st' \<Longrightarrow> total_record_count st' = total_record_count st + 1"
  by (auto simp add: process_record_def process_voicemail_def upload_def write_failed_def
      set_result_def count_processed_def Let_def
      split: sum.splits option.splits if_splits prod.splits json.splits)

lemma process_records_total:
  "process_records env st records = Some st' \<Longrightarrow>
   total_record_count st' = total_record_count st + length records"
proof (induction records arbitrary: st)
  case Nil
  then show ?case by simp
next
  case (Cons r rs)
  then obtain st1 where a: "process_record env st r = Some st1"
    and b: "process_records env st1 rs = Some st'"
    by (auto split: option.splits)
  from process_record_total [OF a] Cons.IH [OF b] show ?case by simp
qed

subsection \<open>The report of a record that was stored\<close>

text \<open>
  Claim C1, on a batch of two records. The first is a voicemail whose audio is
  stored, the second was processed before. The handler counts two records, and two
  as processed, but the result mapping has one entry only, the second record's:
  line 165 counts the stored record and assigns nothing to \<^verbatim>\<open>response_container\<close>,
  while every other way out of the loop body does.
\<close>

theorem stored_record_has_no_result_entry:
  "lambda_handler (sample_env 0) (batch_event [''archive'', ''done'']) =
     Inr (Some
       (\<lparr>statusCode = 200,
         body = \<lparr>status = ''Complete. Processed 2 of 2 records.'',
                 recordResults =
                   [(''Record #2 result'',
                     ''ContactID: c-4 - IGNORE - voicemail already processed'')]\<rparr>\<rparr>,
        [NewConsumer ''archive'' 99 100,
         PutObject ''vm-bucket'' ''voicemail/2024/02/29/c-2.wav''
           (82 # 73 # 70 # 70 # bytes_A) ''audio/x-wav'' ''vm_flag=1&vm_lang=en-NZ&'']))"
  by (simp add: sample_defs handler_defs consumer_defs int_defs Let_def dec_small)

subsection \<open>A stream that goes past the end fragment\<close>

text \<open>
  Claim C2. The stream delivers the fragments 100 and 101 to a consumer whose end
  fragment is 100. Whatever the lag of the waiting poll, the consumer ends with the
  bytes of fragment 100 in its FROM buffer, an empty TO buffer, the tags of fragment
  101 as the last seen and its flag set; nothing of fragment 101 is in a buffer.
  But no call-back has packaged the FROM buffer, so \<^verbatim>\<open>from_customer_audio\<close> is still
  \<^verbatim>\<open>None\<close>, and the handler, which reads it at line 140, fails at
  \<^verbatim>\<open>audio_file.getvalue()\<close>: the store is not called at all and the record is reported
  as failed.
\<close>

theorem bound_reached_stores_nothing:
  "await_past_end sample_wave (KvsPythonConsumerConnect ''bounded'' 99 100)
       [FragmentArrived fragment_100, FragmentArrived fragment_101] lag =
     Some \<lparr>stream_name = ''bounded'', start_fragment = 99, end_fragment = 100,
            last_good_fragment_tags = Some (fragment_number_tag ''101''),
            past_end_fragment = True,
            from_audio_fragments = bytes_A, to_audio_fragments = [],
            to_customer_audio = None, from_customer_audio = None\<rparr> \<and>
   lambda_handler (sample_env lag) (batch_event [''bounded'']) =
     Inr (Some
       (\<lparr>statusCode = 200,
         body = \<lparr>status = ''Complete. Processed 0 of 1 records.'',
                 recordResults =
                   [(''Record #1 result'', ''ContactID: c-1 - Failed to write audio to S3'')]\<rparr>\<rparr>,
        [NewConsumer ''bounded'' 99 100]))"
  by (simp add: sample_defs handler_defs consumer_defs int_defs Let_def dec_small)

subsection \<open>The tagging string\<close>

lemma add_tag_trailing:
  "acc = [] \<or> last acc = CHR ''&'' \<Longrightarrow>
   foldl (add_tag rp) acc items = [] \<or> last (foldl (add_tag rp) acc items) = CHR ''&''"
  by (induction items arbitrary: acc) (simp_all add: add_tag_def)

text \<open>Every tagging string that is not empty ends in the separator.\<close>

lemma vm_tags_trailing:
  "vm_tags env vm_record = Inr tagging \<Longrightarrow> tagging = [] \<or> last tagging = CHR ''&''"
  using add_tag_trailing [of "[]" "repr env"]
  by (auto simp add: vm_tags_def try_bind_def Let_def split: sum.splits)

text \<open>
  Claim C7. For the attributes \<^verbatim>\<open>vm_flag = "1"\<close>, \<^verbatim>\<open>vm_lang = "en-NZ"\<close> and
  \<^verbatim>\<open>queue = "support"\<close> the tagging string built at lines 111 to 116, and handed to
  \<^verbatim>\<open>put_object\<close> at line 160, is \<^verbatim>\<open>vm_flag=1&vm_lang=en-NZ&\<close>: the two prefixed
  entries in order, and a separator after the last, since the result of \<^verbatim>\<open>rstrip\<close>
  is dropped.
\<close>

theorem tagging_keeps_trailing_separator:
  "vm_tags (sample_env 0) (vm_payload ''c-2'' ''1'' ''arn:aws:kinesisvideo:stream/archive/17'')
     = Inr ''vm_flag=1&vm_lang=en-NZ&'' \<and>
   rstrip ''vm_flag=1&vm_lang=en-NZ&'' ''&'' = ''vm_flag=1&vm_lang=en-NZ'' \<and>
   map_option snd (projr (lambda_handler (sample_env 0) (batch_event [''archive'']))) =
     Some [NewConsumer ''archive'' 99 100,
           PutObject ''vm-bucket'' ''voicemail/2024/02/29/c-2.wav''
             (82 # 73 # 70 # 70 # bytes_A) ''audio/x-wav'' ''vm_flag=1&vm_lang=en-NZ&'']"
  by (simp add: sample_defs handler_defs consumer_defs int_defs Let_def dec_small)

subsection \<open>The stream name\<close>

lemma takeWhile_until:
  "c \<notin> set xs \<Longrightarrow> takeWhile (\<lambda>x. x \<noteq> c) (xs @ c # ys) = xs"
  by (induction xs) auto

lemma str_index_first:
  "c \<notin> set pre \<Longrightarrow> str_index (pre @ c # rest) c = Inr (length pre)"
  by (simp add: str_index_def takeWhile_until)

lemma str_rindex_last:
  assumes "c \<notin> set post"
  shows "str_rindex (pre @ c # post) c = Inr (length pre)"
proof -
  from assms have "takeWhile (\<lambda>x. x \<noteq> c) (rev post @ c # rev pre) = rev post"
    by (intro takeWhile_until) simp
  then show ?thesis by (simp add: str_rindex_def)
qed

lemma stream_name_two:
  assumes "CHR ''/'' \<notin> set pre" "CHR ''/'' \<notin> set post"
  shows "stream_name_of (JStr (pre @ CHR ''/'' # mid @ CHR ''/'' # post)) = Inr mid"
proof -
  have i: "str_index (pre @ CHR ''/'' # mid @ CHR ''/'' # post) CHR ''/'' = Inr (length pre)"
    using assms(1) by (rule str_index_first)
  have "str_rindex ((pre @ CHR ''/'' # mid) @ CHR ''/'' # post) CHR ''/''
      = Inr (length (pre @ CHR ''/'' # mid))"
    using assms(2) by (rule str_rindex_last)
  then have j: "str_rindex (pre @ CHR ''/'' # mid @ CHR ''/'' # post) CHR ''/''
      = Inr (length pre + 1 + length mid)" by simp
  show ?thesis by (simp add: i j try_bind_def slice_def)
qed

lemma stream_name_one:
  assumes "CHR ''/'' \<notin> set pre" "CHR ''/'' \<notin> set post"
  shows "stream_name_of (JStr (pre @ CHR ''/'' # post)) = Inr []"
  using str_index_first [OF assms(1), of post] str_rindex_last [OF assms(2), of pre]
  by (simp add: try_bind_def slice_def)

lemma stream_name_none:
  "CHR ''/'' \<notin> set loc \<Longrightarrow> stream_name_of (JStr loc) = Inl ValueError"
  by (simp add: str_index_def try_bind_def)

lemma no_slash_record:
  assumes "extract_record env r = Inr (vm_record, current_contact_id)"
    and "vm_flag_of vm_record = Inr (JStr ''1'')"
    and "recording_field vm_record ''Location'' = Inr (JStr loc)"
    and "CHR ''/'' \<notin> set loc"
  shows "process_record env st r =
      Some (set_result (st\<lparr>total_record_count := total_record_count st + 1\<rparr>)
              ''Failed to extract KVS info'')"
  using assms stream_name_none [OF assms(4)]
  by (simp add: process_record_def process_voicemail_def kvs_info_def try_bind_def)

lemma one_slash_record:
  assumes "extract_record env r = Inr (vm_record, current_contact_id)"
    and "vm_flag_of vm_record = Inr (JStr ''1'')"
    and "recording_field vm_record ''Location'' = Inr (JStr (pre @ CHR ''/'' # post))"
    and "CHR ''/'' \<notin> set pre" "CHR ''/'' \<notin> set post"
    and "try_bind (recording_field vm_record ''FragmentStartNumber'') py_int = Inr a"
    and "try_bind (recording_field vm_record ''FragmentStopNumber'') py_int = Inr b"
    and "vm_tags env vm_record = Inr tagging"
  shows "kvs_info vm_record = Inr ([], a, b) \<and> process_record env st r =
      upload env (st\<lparr>total_record_count := total_record_count st + 1\<rparr>) current_contact_id
         [] a b tagging"
  using assms stream_name_one [OF assms(4,5)]
  by (simp add: process_record_def process_voicemail_def kvs_info_def try_bind_def)

text \<open>
  Claim C10. The stream name is the part of the location strictly between its first
  and its last \<^verbatim>\<open>/\<close>, and the empty string when the location has one \<^verbatim>\<open>/\<close> only. A
  record whose flag is \<^verbatim>\<open>"1"\<close> and whose location has no \<^verbatim>\<open>/\<close> gets the result
  \<^verbatim>\<open>Failed to extract KVS info\<close> and causes no call: no consumer is made for it. A
  record whose location has one \<^verbatim>\<open>/\<close> passes this stage with the empty stream name
  and goes on to the upload.
\<close>

theorem stream_name_between_slashes:
  "(CHR ''/'' \<notin> set pre \<and> CHR ''/'' \<notin> set post \<longrightarrow>
      stream_name_of (JStr (pre @ CHR ''/'' # mid @ CHR ''/'' # post)) = Inr mid \<and>
      stream_name_of (JStr (pre @ CHR ''/'' # post)) = Inr []) \<and>
   (extract_record env r = Inr (vm_record, current_contact_id) \<and>
    vm_flag_of vm_record = Inr (JStr ''1'') \<and>
    recording_field vm_record ''Location'' = Inr (JStr loc) \<and>
    CHR ''/'' \<notin> set loc \<longrightarrow>
      stream_name_of (JStr loc) = Inl ValueError \<and>
      process_record env st r =
        Some (set_result (st\<lparr>total_record_count := total_record_count st + 1\<rparr>)
                ''Failed to extract KVS info'') \<and>
      calls (set_result (st\<lparr>total_record_count := total_record_count st + 1\<rparr>)
                ''Failed to extract KVS info'') = calls st) \<and>
   (extract_record env r' = Inr (vm_record', current_contact_id') \<and>
    vm_flag_of vm_record' = Inr (JStr ''1'') \<and>
    recording_field vm_record' ''Location'' = Inr (JStr (pre @ CHR ''/'' # post)) \<and>
    CHR ''/'' \<notin> set pre \<and> CHR ''/'' \<notin> set post \<and>
    try_bind (recording_field vm_record' ''FragmentStartNumber'') py_int = Inr a \<and>
    try_bind (recording_field vm_record' ''FragmentStopNumber'') py_int = Inr b \<and>
    vm_tags env vm_record' = Inr tagging \<longrightarrow>
      kvs_info vm_record' = Inr ([], a, b) \<and>
      process_record env st r' =
        upload env (st\<lparr>total_record_count := total_record_count st + 1\<rparr>)
          current_contact_id' [] a b tagging)"
  using stream_name_two [of pre post mid] stream_name_one [of pre post]
    stream_name_none [of loc]
    no_slash_record [of env r vm_record current_contact_id loc st]
    one_slash_record [of env r' vm_record' current_contact_id' pre post a b tagging st]
  by (simp add: set_result_def)

theorem stream_name_between_slashes_witness:
  "CHR ''/'' \<notin> set ''stream'' \<and> CHR ''/'' \<notin> set ''archive'' \<and>
   stream_name_of (JStr ''stream/bounded/1/archive'') = Inr ''bounded/1'' \<and>
   stream_name_of (JStr ''stream/archive'') = Inr [] \<and>
   extract_record (sample_env 0) (kinesis_record ''noslash'')
     = Inr (vm_payload ''c-6'' ''1'' ''archive'', JStr ''c-6'') \<and>
   vm_flag_of (vm_payload ''c-6'' ''1'' ''archive'') = Inr (JStr ''1'') \<and>
   recording_field (vm_payload ''c-6'' ''1'' ''archive'') ''Location'' = Inr (JStr ''archive'') \<and>
   stream_name_of (JStr ''archive'') = Inl ValueError \<and>
   process_record (sample_env 0) initial_state (kinesis_record ''noslash'') =
     Some \<lparr>response_container = [(''Record #1 result'', ''Failed to extract KVS info'')],
            total_record_count = 1, processed_record_count = 0, calls = []\<rparr> \<and>
   extract_record (sample_env 0) (kinesis_record ''oneslash'')
     = Inr (vm_payload ''c-7'' ''1'' ''stream/archive'', JStr ''c-7'') \<and>
   vm_flag_of (vm_payload ''c-7'' ''1'' ''stream/archive'') = Inr (JStr ''1'') \<and>
   recording_field (vm_payload ''c-7'' ''1'' ''stream/archive'') ''Location''
     = Inr (JStr ''stream/archive'') \<and>
   try_bind (recording_field (vm_payload ''c-7'' ''1'' ''stream/archive'') ''FragmentStartNumber'')
     py_int = Inr 99 \<and>
   try_bind (recording_field (vm_payload ''c-7'' ''1'' ''stream/archive'') ''FragmentStopNumber'')
     py_int = Inr 100 \<and>
   vm_tags (sample_env 0) (vm_payload ''c-7'' ''1'' ''stream/archive'')
     = Inr ''vm_flag=1&vm_lang=en-NZ&'' \<and>
   kvs_info (vm_payload ''c-7'' ''1'' ''stream/archive'') = Inr ([], 99, 100) \<and>
   process_record (sample_env 0) initial_state (kinesis_record ''oneslash'') =
     upload (sample_env 0) (initial_state\<lparr>total_record_count := 1\<rparr>) (JStr ''c-7'') [] 99 100
       ''vm_flag=1&vm_lang=en-NZ&''"
proof -
  have h1: "CHR ''/'' \<notin> set ''stream''" "CHR ''/'' \<notin> set ''archive''" by simp_all
  have h2: "extract_record (sample_env 0) (kinesis_record ''noslash'')
     = Inr (vm_payload ''c-6'' ''1'' ''archive'', JStr ''c-6'')"
    by (simp add: sample_defs handler_defs)
  have h3: "vm_flag_of (vm_payload ''c-6'' ''1'' ''archive'') = Inr (JStr ''1'')"
    "vm_flag_of (vm_payload ''c-7'' ''1'' ''stream/archive'') = Inr (JStr ''1'')"
    by (simp_all add: sample_defs handler_defs)
  have h4: "recording_field (vm_payload ''c-6'' ''1'' ''archive'') ''Location'' = Inr (JStr ''archive'')"
    "recording_field (vm_payload ''c-7'' ''1'' ''stream/archive'') ''Location''
     = Inr (JStr (''stream'' @ CHR ''/'' # ''archive''))"
    by (simp_all add: sample_defs handler_defs)
  have h5: "extract_record (sample_env 0) (kinesis_record ''oneslash'')
     = Inr (vm_payload ''c-7'' ''1'' ''stream/archive'', JStr ''c-7'')"
    by (simp add: sample_defs handler_defs)
  have h6: "try_bind (recording_field (vm_payload ''c-7'' ''1'' ''stream/archive'') ''FragmentStartNumber'')
     py_int = Inr 99"
    "try_bind (recording_field (vm_payload ''c-7'' ''1'' ''stream/archive'') ''FragmentStopNumber'')
     py_int = Inr 100"
    by (simp_all add: sample_defs handler_defs int_defs)
  have h7: "vm_tags (sample_env 0) (vm_payload ''c-7'' ''1'' ''stream/archive'')
     = Inr ''vm_flag=1&vm_lang=en-NZ&''"
    by (simp add: sample_defs handler_defs)
  have lab: "set_result (initial_state\<lparr>total_record_count := total_record_count initial_state + 1\<rparr>)
                ''Failed to extract KVS info'' =
     \<lparr>response_container = [(''Record #1 result'', ''Failed to extract KVS info'')],
            total_record_count = 1, processed_record_count = 0, calls = []\<rparr>"
    by (simp add: handler_defs dec_small)
  from stream_name_between_slashes [of "''stream''" "''archive''" "''bounded/1''" "sample_env 0"
      "kinesis_record ''noslash''" "vm_payload ''c-6'' ''1'' ''archive''" "JStr ''c-6''"
      "''archive''" initial_state "kinesis_record ''oneslash''"
      "vm_payload ''c-7'' ''1'' ''stream/archive''" "JStr ''c-7''" 99 100
      "''vm_flag=1&vm_lang=en-NZ&''"]
    h1 h2 h3 h4 h5 h6 h7 lab
  show ?thesis by (simp add: initial_state_def)
qed

subsection \<open>The processing flag\<close>

lemma dict_set_lookup: "map_of (dict_set kvs k v) k = Some v"
  by (induction kvs) auto

lemma dict_set_other: "k' \<noteq> k \<Longrightarrow> map_of (dict_set kvs k v) k' = map_of kvs k'"
  by (induction kvs) auto

text \<open>
  Claim C8. For a record that decodes and whose \<^verbatim>\<open>Attributes\<close> is an object, the flag
  is the value stored under \<^verbatim>\<open>vm_flag\<close>, or \<^verbatim>\<open>"99"\<close> when there is none. With the
  flag \<^verbatim>\<open>"1"\<close> the record goes on to the extraction of the stream details; when these
  are read, a consumer is made for the stream and the two fragment numbers, the
  handler waits for it (for ever, if its wait never ends) and, when the packaged
  FROM audio is there and the store accepts it, the audio is stored under the dated
  key with the tagging string and the record is counted as processed. With the
  flag \<^verbatim>\<open>"0"\<close> its result is \<^verbatim>\<open>voicemail already processed\<close>, with any other
  flag, an absent one included, \<^verbatim>\<open>voicemail flag not valid\<close>; in both cases the
  record is counted as processed and causes no call: no consumer is made, so no
  buffer exists to be touched, the transport is not asked and nothing is stored.
\<close>

theorem flag_routes_record:
  assumes "extract_record env r = Inr (vm_record, current_contact_id)"
    and "py_getitem vm_record ''Attributes'' = Inr (JObj attributes)"
  shows "vm_flag_of vm_record
           = Inr (case map_of attributes ''vm_flag'' of None \<Rightarrow> JStr ''99'' | Some v \<Rightarrow> v) \<and>
         (vm_flag_of vm_record = Inr (JStr ''1'') \<longrightarrow>
           process_record env st r =
             process_voicemail env (st\<lparr>total_record_count := total_record_count st + 1\<rparr>)
               vm_record current_contact_id) \<and>
         (vm_flag_of vm_record = Inr (JStr ''0'') \<longrightarrow>
           (\<exists>st'. process_record env st r = Some st' \<and>
              map_of (response_container st') (record_label (total_record_count st + 1))
                = Some (''ContactID: '' @ py_str (repr env) current_contact_id
                        @ '' - IGNORE - voicemail already processed'') \<and>
              total_record_count st' = total_record_count st + 1 \<and>
              processed_record_count st' = processed_record_count st + 1 \<and>
              calls st' = calls st)) \<and>
         (vm_flag_of vm_record \<noteq> Inr (JStr ''1'') \<and> vm_flag_of vm_record \<noteq> Inr (JStr ''0'') \<longrightarrow>
           (\<exists>st'. process_record env st r = Some st' \<and>
              map_of (response_container st') (record_label (total_record_count st + 1))
                = Some (''ContactID: '' @ py_str (repr env) current_contact_id
                        @ '' - IGNORE - voicemail flag not valid'') \<and>
              total_record_count st' = total_record_count st + 1 \<and>
              processed_record_count st' = processed_record_count st + 1 \<and>
              calls st' = calls st)) \<and>
         (vm_flag_of vm_record = Inr (JStr ''1'') \<and> kvs_info vm_record = Inr (stream, a, b) \<longrightarrow>
           vm_tags env vm_record = Inr (foldl (add_tag (repr env)) [] attributes) \<and>
           (\<forall>st'. process_record env st r = Some st' \<longrightarrow>
              (\<exists>more. calls st' = calls st @ NewConsumer stream a b # more)) \<and>
           (service_loop (kinesis_video env (total_record_count st + 1)) (wave env)
              (KvsPythonConsumerConnect stream a b) = Inr None \<longrightarrow>
              process_record env st r = None) \<and>
           (service_loop (kinesis_video env (total_record_count st + 1)) (wave env)
              (KvsPythonConsumerConnect stream a b) = Inr (Some processor) \<and>
            from_customer_audio processor = Some audio \<and>
            current_contact_id = JStr contact \<and>
            utc_today env (total_record_count st + 1) = (year, month, day) \<and>
            put_object env (total_record_count st + 1) (BUCKET_NAME env)
              (RECORDING_PATH env @ year @ ''/'' @ month @ ''/'' @ day @ ''/'' @ contact @ ''.wav'')
              audio AUDIO_MIME_TYPE (foldl (add_tag (repr env)) [] attributes) = None \<longrightarrow>
              process_record env st r =
                Some (st\<lparr>total_record_count := total_record_count st + 1,
                         processed_record_count := processed_record_count st + 1,
                         calls := calls st @
                           [NewConsumer stream a b,
                            PutObject (BUCKET_NAME env)
                              (RECORDING_PATH env @ year @ ''/'' @ month @ ''/'' @ day @ ''/''
                               @ contact @ ''.wav'')
                              audio AUDIO_MIME_TYPE
                              (foldl (add_tag (repr env)) [] attributes)]\<rparr>)))"
proof -
  have old: "vm_flag_of vm_record
           = Inr (case map_of attributes ''vm_flag'' of None \<Rightarrow> JStr ''99'' | Some v \<Rightarrow> v) \<and>
         (vm_flag_of vm_record = Inr (JStr ''1'') \<longrightarrow>
           process_record env st r =
             process_voicemail env (st\<lparr>total_record_count := total_record_count st + 1\<rparr>)
               vm_record current_contact_id) \<and>
         (vm_flag_of vm_record = Inr (JStr ''0'') \<longrightarrow>
           (\<exists>st'. process_record env st r = Some st' \<and>
              map_of (response_container st') (record_label (total_record_count st + 1))
                = Some (''ContactID: '' @ py_str (repr env) current_contact_id
                        @ '' - IGNORE - voicemail already processed'') \<and>
              total_record_count st' = total_record_count st + 1 \<and>
              processed_record_count st' = processed_record_count st + 1 \<and>
              calls st' = calls st)) \<and>
         (vm_flag_of vm_record \<noteq> Inr (JStr ''1'') \<and> vm_flag_of vm_record \<noteq> Inr (JStr ''0'') \<longrightarrow>
           (\<exists>st'. process_record env st r = Some st' \<and>
              map_of (response_container st') (record_label (total_record_count st + 1))
                = Some (''ContactID: '' @ py_str (repr env) current_contact_id
                        @ '' - IGNORE - voicemail flag not valid'') \<and>
              total_record_count st' = total_record_count st + 1 \<and>
              processed_record_count st' = processed_record_count st + 1 \<and>
              calls st' = calls st))"
    using assms
    by (simp add: vm_flag_of_def try_bind_def process_record_def set_result_def
        count_processed_def dict_set_lookup)
  have tg: "vm_tags env vm_record = Inr (foldl (add_tag (repr env)) [] attributes)"
    using assms(2) by (cases vm_record) (auto simp add: vm_tags_def try_bind_def Let_def
        split: option.splits)
  have new: "vm_tags env vm_record = Inr (foldl (add_tag (repr env)) [] attributes) \<and>
           (\<forall>st'. process_record env st r = Some st' \<longrightarrow>
              (\<exists>more. calls st' = calls st @ NewConsumer stream a b # more)) \<and>
           (service_loop (kinesis_video env (total_record_count st + 1)) (wave env)
              (KvsPythonConsumerConnect stream a b) = Inr None \<longrightarrow>
              process_record env st r = None) \<and>
           (service_loop (kinesis_video env (total_record_count st + 1)) (wave env)
              (KvsPythonConsumerConnect stream a b) = Inr (Some processor) \<and>
            from_customer_audio processor = Some audio \<and>
            current_contact_id = JStr contact \<and>
            utc_today env (total_record_count st + 1) = (year, month, day) \<and>
            put_object env (total_record_count st + 1) (BUCKET_NAME env)
              (RECORDING_PATH env @ year @ ''/'' @ month @ ''/'' @ day @ ''/'' @ contact @ ''.wav'')
              audio AUDIO_MIME_TYPE (foldl (add_tag (repr env)) [] attributes) = None \<longrightarrow>
              process_record env st r =
                Some (st\<lparr>total_record_count := total_record_count st + 1,
                         processed_record_count := processed_record_count st + 1,
                         calls := calls st @
                           [NewConsumer stream a b,
                            PutObject (BUCKET_NAME env)
                              (RECORDING_PATH env @ year @ ''/'' @ month @ ''/'' @ day @ ''/''
                               @ contact @ ''.wav'')
                              audio AUDIO_MIME_TYPE
                              (foldl (add_tag (repr env)) [] attributes)]\<rparr>))"
    if f: "vm_flag_of vm_record = Inr (JStr ''1'')" and k: "kvs_info vm_record = Inr (stream, a, b)"
  proof -
    have pr: "process_record env st r =
        upload env (st\<lparr>total_record_count := total_record_count st + 1\<rparr>) current_contact_id
          stream a b (foldl (add_tag (repr env)) [] attributes)"
      using assms(1) f k tg by (simp add: process_record_def process_voicemail_def)
    have c: "\<forall>st'. process_record env st r = Some st' \<longrightarrow>
              (\<exists>more. calls st' = calls st @ NewConsumer stream a b # more)"
      unfolding pr
      by (auto simp add: upload_def write_failed_def set_result_def count_processed_def Let_def
          split: sum.splits option.splits json.splits prod.splits)
    have h: "service_loop (kinesis_video env (total_record_count st + 1)) (wave env)
              (KvsPythonConsumerConnect stream a b) = Inr None \<longrightarrow>
              process_record env st r = None"
      unfolding pr by (simp add: upload_def)
    have ok: "service_loop (kinesis_video env (total_record_count st + 1)) (wave env)
              (KvsPythonConsumerConnect stream a b) = Inr (Some processor) \<and>
            from_customer_audio processor = Some audio \<and>
            current_contact_id = JStr contact \<and>
            utc_today env (total_record_count st + 1) = (year, month, day) \<and>
            put_object env (total_record_count st + 1) (BUCKET_NAME env)
              (RECORDING_PATH env @ year @ ''/'' @ month @ ''/'' @ day @ ''/'' @ contact @ ''.wav'')
              audio AUDIO_MIME_TYPE (foldl (add_tag (repr env)) [] attributes) = None \<longrightarrow>
              process_record env st r =
                Some (st\<lparr>total_record_count := total_record_count st + 1,
                         processed_record_count := processed_record_count st + 1,
                         calls := calls st @
                           [NewConsumer stream a b,
                            PutObject (BUCKET_NAME env)
                              (RECORDING_PATH env @ year @ ''/'' @ month @ ''/'' @ day @ ''/''
                               @ contact @ ''.wav'')
                              audio AUDIO_MIME_TYPE
                              (foldl (add_tag (repr env)) [] attributes)]\<rparr>)"
      unfolding pr by (simp add: upload_def count_processed_def Let_def)
    from tg c h ok show ?thesis by blast
  qed
  from old new show ?thesis by blast
qed

theorem flag_routes_record_witness:
  "extract_record (sample_env 0) (kinesis_record ''done'')
     = Inr (vm_payload ''c-4'' ''0'' ''arn:aws:kinesisvideo:stream/archive/17'', JStr ''c-4'') \<and>
   vm_flag_of (vm_payload ''c-4'' ''0'' ''arn:aws:kinesisvideo:stream/archive/17'') = Inr (JStr ''0'') \<and>
   (\<exists>st'. process_record (sample_env 0) initial_state (kinesis_record ''done'') = Some st' \<and>
      map_of (response_container st') ''Record #1 result''
        = Some ''ContactID: c-4 - IGNORE - voicemail already processed'' \<and>
      processed_record_count st' = 1 \<and> calls st' = []) \<and>
   extract_record (sample_env 0) (kinesis_record ''unflagged'') = Inr (unflagged_payload, JStr ''c-8'') \<and>
   vm_flag_of unflagged_payload = Inr (JStr ''99'') \<and>
   (\<exists>st'. process_record (sample_env 0) initial_state (kinesis_record ''unflagged'') = Some st' \<and>
      map_of (response_container st') ''Record #1 result''
        = Some ''ContactID: c-8 - IGNORE - voicemail flag not valid'' \<and>
      processed_record_count st' = 1 \<and> calls st' = []) \<and>
   extract_record (sample_env 0) (kinesis_record ''archive'')
     = Inr (vm_payload ''c-2'' ''1'' ''arn:aws:kinesisvideo:stream/archive/17'', JStr ''c-2'') \<and>
   vm_flag_of (vm_payload ''c-2'' ''1'' ''arn:aws:kinesisvideo:stream/archive/17'') = Inr (JStr ''1'') \<and>
   process_record (sample_env 0) initial_state (kinesis_record ''archive'') =
     process_voicemail (sample_env 0) (initial_state\<lparr>total_record_count := 1\<rparr>)
       (vm_payload ''c-2'' ''1'' ''arn:aws:kinesisvideo:stream/archive/17'') (JStr ''c-2'') \<and>
   kvs_info (vm_payload ''c-2'' ''1'' ''arn:aws:kinesisvideo:stream/archive/17'')
     = Inr (''archive'', 99, 100) \<and>
   service_loop (kinesis_video (sample_env 0) 1) (wave (sample_env 0))
       (KvsPythonConsumerConnect ''archive'' 99 100) = Inr (Some \<lparr>stream_name = ''archive'', start_fragment = 99, end_fragment = 100,
        last_good_fragment_tags = Some (fragment_number_tag ''100''), past_end_fragment = True,
        from_audio_fragments = bytes_A, to_audio_fragments = [],
        to_customer_audio = None, from_customer_audio = Some (82 # 73 # 70 # 70 # bytes_A)\<rparr>) \<and>
   utc_today (sample_env 0) 1 = (''2024'', ''02'', ''29'') \<and>
   put_object (sample_env 0) 1 ''vm-bucket'' ''voicemail/2024/02/29/c-2.wav''
       (82 # 73 # 70 # 70 # bytes_A) ''audio/x-wav'' ''vm_flag=1&vm_lang=en-NZ&'' = None \<and>
   vm_tags (sample_env 0) (vm_payload ''c-2'' ''1'' ''arn:aws:kinesisvideo:stream/archive/17'')
     = Inr ''vm_flag=1&vm_lang=en-NZ&'' \<and>
   process_record (sample_env 0) initial_state (kinesis_record ''archive'') =
     Some \<lparr>response_container = [], total_record_count = 1, processed_record_count = 1,
            calls = [NewConsumer ''archive'' 99 100,
                     PutObject ''vm-bucket'' ''voicemail/2024/02/29/c-2.wav''
                       (82 # 73 # 70 # 70 # bytes_A) ''audio/x-wav''
                       ''vm_flag=1&vm_lang=en-NZ&'']\<rparr> \<and>
   kvs_info (vm_payload ''c-3'' ''1'' ''arn:aws:kinesisvideo:stream/broken/17'')
     = Inr (''broken'', 99, 100) \<and>
   service_loop (kinesis_video (sample_env 0) 1) (wave (sample_env 0))
       (KvsPythonConsumerConnect ''broken'' 99 100) = Inr None \<and>
   process_record (sample_env 0) initial_state (kinesis_record ''broken'') = None"
proof -
  have k2: "kvs_info (vm_payload ''c-2'' ''1'' ''arn:aws:kinesisvideo:stream/archive/17'')
     = Inr (''archive'', 99, 100)"
    by (simp add: sample_defs handler_defs int_defs)
  have s2: "service_loop (kinesis_video (sample_env 0) 1) (wave (sample_env 0))
       (KvsPythonConsumerConnect ''archive'' 99 100) = Inr (Some \<lparr>stream_name = ''archive'', start_fragment = 99, end_fragment = 100,
        last_good_fragment_tags = Some (fragment_number_tag ''100''), past_end_fragment = True,
        from_audio_fragments = bytes_A, to_audio_fragments = [],
        to_customer_audio = None, from_customer_audio = Some (82 # 73 # 70 # 70 # bytes_A)\<rparr>)"
    by (simp add: sample_defs consumer_defs int_defs Let_def)
  have u2: "utc_today (sample_env 0) 1 = (''2024'', ''02'', ''29'')"
    by (simp add: sample_env_def)
  have p2: "put_object (sample_env 0) 1 ''vm-bucket'' ''voicemail/2024/02/29/c-2.wav''
       (82 # 73 # 70 # 70 # bytes_A) ''audio/x-wav'' ''vm_flag=1&vm_lang=en-NZ&'' = None"
    by (simp add: sample_env_def)
  have g2: "foldl (add_tag (repr (sample_env 0))) []
       [(''vm_flag'', JStr ''1''), (''vm_lang'', JStr ''en-NZ''), (''queue'', JStr ''support'')]
     = ''vm_flag=1&vm_lang=en-NZ&''"
    by (simp add: add_tag_def startswith_def)
  have cfg: "BUCKET_NAME (sample_env 0) = ''vm-bucket''" "RECORDING_PATH (sample_env 0) = ''voicemail/''"
    "AUDIO_MIME_TYPE = ''audio/x-wav''"
    by (simp_all add: sample_env_def AUDIO_MIME_TYPE_def)
  have e3: "extract_record (sample_env 0) (kinesis_record ''broken'')
     = Inr (vm_payload ''c-3'' ''1'' ''arn:aws:kinesisvideo:stream/broken/17'', JStr ''c-3'')"
    by (simp add: sample_defs extract_record_def try_bind_def)
  have a3: "py_getitem (vm_payload ''c-3'' ''1'' ''arn:aws:kinesisvideo:stream/broken/17'') ''Attributes''
     = Inr (JObj [(''vm_flag'', JStr ''1''), (''vm_lang'', JStr ''en-NZ''), (''queue'', JStr ''support'')])"
    by (simp add: sample_defs)
  have f3: "vm_flag_of (vm_payload ''c-3'' ''1'' ''arn:aws:kinesisvideo:stream/broken/17'')
      = Inr (JStr ''1'')"
    by (simp add: vm_flag_of_def try_bind_def a3)
  have k3: "kvs_info (vm_payload ''c-3'' ''1'' ''arn:aws:kinesisvideo:stream/broken/17'')
     = Inr (''broken'', 99, 100)"
    by (simp add: sample_defs handler_defs int_defs)
  have s3: "service_loop (kinesis_video (sample_env 0) 1) (wave (sample_env 0))
       (KvsPythonConsumerConnect ''broken'' 99 100) = Inr None"
    by (simp add: sample_defs consumer_defs int_defs Let_def)
  have e0: "extract_record (sample_env 0) (kinesis_record ''done'')
     = Inr (vm_payload ''c-4'' ''0'' ''arn:aws:kinesisvideo:stream/archive/17'', JStr ''c-4'')"
    by (simp add: sample_defs extract_record_def try_bind_def)
  have a0: "py_getitem (vm_payload ''c-4'' ''0'' ''arn:aws:kinesisvideo:stream/archive/17'') ''Attributes''
     = Inr (JObj [(''vm_flag'', JStr ''0''), (''vm_lang'', JStr ''en-NZ''), (''queue'', JStr ''support'')])"
    by (simp add: sample_defs)
  have e1: "extract_record (sample_env 0) (kinesis_record ''unflagged'') = Inr (unflagged_payload, JStr ''c-8'')"
    by (simp add: sample_defs extract_record_def try_bind_def)
  have a1: "py_getitem unflagged_payload ''Attributes'' = Inr (JObj [(''queue'', JStr ''support'')])"
    by (simp add: sample_defs)
  have e2: "extract_record (sample_env 0) (kinesis_record ''archive'')
     = Inr (vm_payload ''c-2'' ''1'' ''arn:aws:kinesisvideo:stream/archive/17'', JStr ''c-2'')"
    by (simp add: sample_defs extract_record_def try_bind_def)
  have a2: "py_getitem (vm_payload ''c-2'' ''1'' ''arn:aws:kinesisvideo:stream/archive/17'') ''Attributes''
     = Inr (JObj [(''vm_flag'', JStr ''1''), (''vm_lang'', JStr ''en-NZ''), (''queue'', JStr ''support'')])"
    by (simp add: sample_defs)
  have lab: "record_label (Suc 0) = ''Record #1 result''"
    by (simp add: record_label_def dec_small)
  have f0: "vm_flag_of (vm_payload ''c-4'' ''0'' ''arn:aws:kinesisvideo:stream/archive/17'')
      = Inr (JStr ''0'')"
    by (simp add: vm_flag_of_def try_bind_def a0)
  have f1: "vm_flag_of unflagged_payload = Inr (JStr ''99'')"
    by (simp add: vm_flag_of_def try_bind_def a1)
  have f2: "vm_flag_of (vm_payload ''c-2'' ''1'' ''arn:aws:kinesisvideo:stream/archive/17'')
      = Inr (JStr ''1'')"
    by (simp add: vm_flag_of_def try_bind_def a2)
  have i: "total_record_count initial_state = 0" "processed_record_count initial_state = 0"
    "calls initial_state = []" "repr (sample_env 0) = (\<lambda>v. ''?'')"
    by (simp_all add: initial_state_def sample_env_def)
  have r0: "\<exists>st'. process_record (sample_env 0) initial_state (kinesis_record ''done'') = Some st' \<and>
      map_of (response_container st') ''Record #1 result''
        = Some ''ContactID: c-4 - IGNORE - voicemail already processed'' \<and>
      processed_record_count st' = 1 \<and> calls st' = []"
    using flag_routes_record [OF e0 a0, where st = initial_state] by (auto simp add: f0 lab i)
  have r1: "\<exists>st'. process_record (sample_env 0) initial_state (kinesis_record ''unflagged'') = Some st' \<and>
      map_of (response_container st') ''Record #1 result''
        = Some ''ContactID: c-8 - IGNORE - voicemail flag not valid'' \<and>
      processed_record_count st' = 1 \<and> calls st' = []"
    using flag_routes_record [OF e1 a1, where st = initial_state] by (auto simp add: f1 lab i)
  have r2: "process_record (sample_env 0) initial_state (kinesis_record ''archive'') =
     process_voicemail (sample_env 0) (initial_state\<lparr>total_record_count := 1\<rparr>)
       (vm_payload ''c-2'' ''1'' ''arn:aws:kinesisvideo:stream/archive/17'') (JStr ''c-2'')"
    using flag_routes_record [OF e2 a2, where st = initial_state] by (simp add: f2 i)
  have t2: "vm_tags (sample_env 0) (vm_payload ''c-2'' ''1'' ''arn:aws:kinesisvideo:stream/archive/17'')
     = Inr ''vm_flag=1&vm_lang=en-NZ&''"
    using flag_routes_record [OF e2 a2, where st = initial_state and stream = "''archive''"
        and a = 99 and b = 100,
        THEN conjunct2, THEN conjunct2, THEN conjunct2, THEN conjunct2] f2 k2 g2
    by simp
  have r3: "process_record (sample_env 0) initial_state (kinesis_record ''archive'') =
     Some \<lparr>response_container = [], total_record_count = 1, processed_record_count = 1,
            calls = [NewConsumer ''archive'' 99 100,
                     PutObject ''vm-bucket'' ''voicemail/2024/02/29/c-2.wav''
                       (82 # 73 # 70 # 70 # bytes_A) ''audio/x-wav''
                       ''vm_flag=1&vm_lang=en-NZ&'']\<rparr>"
    using flag_routes_record [OF e2 a2, where st = initial_state and stream = "''archive''"
        and a = 99 and b = 100 and processor = "\<lparr>stream_name = ''archive'', start_fragment = 99, end_fragment = 100,
        last_good_fragment_tags = Some (fragment_number_tag ''100''), past_end_fragment = True,
        from_audio_fragments = bytes_A, to_audio_fragments = [],
        to_customer_audio = None, from_customer_audio = Some (82 # 73 # 70 # 70 # bytes_A)\<rparr>"
        and audio = "82 # 73 # 70 # 70 # bytes_A" and contact = "''c-2''"
        and year = "''2024''" and month = "''02''" and day = "''29''",
        THEN conjunct2, THEN conjunct2, THEN conjunct2, THEN conjunct2]
      f2 k2 s2 u2 p2 g2 cfg i
    by (simp add: initial_state_def)
  have r4: "process_record (sample_env 0) initial_state (kinesis_record ''broken'') = None"
    using flag_routes_record [OF e3 a3, where st = initial_state and stream = "''broken''"
        and a = 99 and b = 100,
        THEN conjunct2, THEN conjunct2, THEN conjunct2, THEN conjunct2] f3 k3 s3 i
    by simp
  from e0 e1 e2 f0 f1 f2 r0 r1 r2 k2 s2 u2 p2 t2 r3 k3 s3 r4 show ?thesis by blast
qed

section \<open>Fragments that raise, and events after termination\<close>

subsection \<open>What a fragment adds to the buffers\<close>

lemma step_end: "end_fragment (on_fragment_arrived self f) = end_fragment self"
  by (simp add: on_fragment_arrived_def on_fragment_arrived_try_def Let_def
      split: sum.splits option.splits)

lemma step_from:
  "from_audio_fragments (on_fragment_arrived self f)
     = from_audio_fragments self @ from_added (end_fragment self) f"
  by (simp add: from_added_def on_fragment_arrived_def on_fragment_arrived_try_def Let_def
      KvsPythonConsumerConnect_def split: sum.splits option.splits)

lemma step_to:
  "to_audio_fragments (on_fragment_arrived self f)
     = to_audio_fragments self @ to_added (end_fragment self) f"
  by (simp add: to_added_def on_fragment_arrived_def on_fragment_arrived_try_def Let_def
      KvsPythonConsumerConnect_def split: sum.splits option.splits)

lemma arrive_end: "end_fragment (arrive self fs) = end_fragment self"
  unfolding arrive_def by (induction fs arbitrary: self) (simp_all add: step_end)

lemma arrive_from:
  "from_audio_fragments (arrive self fs)
     = from_audio_fragments self @ concat (map (from_added (end_fragment self)) fs)"
  unfolding arrive_def by (induction fs arbitrary: self) (simp_all add: step_end step_from)

lemma arrive_to:
  "to_audio_fragments (arrive self fs)
     = to_audio_fragments self @ concat (map (to_added (end_fragment self)) fs)"
  unfolding arrive_def by (induction fs arbitrary: self) (simp_all add: step_end step_to)

lemma raised_to_added:
  "snd (on_fragment_arrived_try self f) = Some err \<Longrightarrow> to_added (end_fragment self) f = []"
  by (auto simp add: to_added_def on_fragment_arrived_def on_fragment_arrived_try_def Let_def
      KvsPythonConsumerConnect_def split: sum.splits option.splits if_splits)

lemma raised_from_added:
  "snd (on_fragment_arrived_try self f) = Some err \<Longrightarrow>
   save_connect_fragment_audio_track_to_customer f \<noteq> Inl err \<Longrightarrow>
   from_added (end_fragment self) f = []"
  by (auto simp add: from_added_def on_fragment_arrived_def on_fragment_arrived_try_def Let_def
      KvsPythonConsumerConnect_def split: sum.splits option.splits if_splits)

lemma truthyD: "truthy d \<Longrightarrow> d = Some (the d) \<and> the d \<noteq> []"
  by (cases d) auto

lemma raised_from_kept:
  "snd (on_fragment_arrived_try self f) = Some err \<Longrightarrow>
   from_added (end_fragment self) f = [] \<or>
   (save_connect_fragment_audio_track_to_customer f = Inl err \<and>
    save_connect_fragment_audio_track_from_customer f = Inr (Some (from_added (end_fragment self) f)))"
  by (auto simp add: from_added_def on_fragment_arrived_def on_fragment_arrived_try_def Let_def
      KvsPythonConsumerConnect_def split: sum.splits option.splits if_splits dest: truthyD)

text \<open>
  Claim C5 fails as it is stated. The consumer has received fragment 100. The next
  fragment is in range, gives its FROM data and raises when its TO channel is read:
  the exception is caught, but the FROM data was appended before, and stays. With a
  further fragment 100 the FROM buffer ends as the three contributions, not as the
  two of the run without the raising fragment.
\<close>

theorem raising_fragment_keeps_from_data:
  "snd (on_fragment_arrived_try
          (arrive (KvsPythonConsumerConnect ''archive'' 99 100) [fragment_100]) fragment_half)
     = Some (External ''corrupt track'') \<and>
   from_audio_fragments
     (arrive (KvsPythonConsumerConnect ''archive'' 99 100) [fragment_100, fragment_half, fragment_100])
     = [1, 2, 3, 4, 7, 8, 1, 2, 3, 4] \<and>
   from_audio_fragments
     (arrive (KvsPythonConsumerConnect ''archive'' 99 100) [fragment_100, fragment_100])
     = [1, 2, 3, 4, 1, 2, 3, 4] \<and>
   from_audio_fragments
     (arrive (KvsPythonConsumerConnect ''archive'' 99 100) [fragment_100, fragment_half, fragment_100])
     \<noteq> from_audio_fragments
     (arrive (KvsPythonConsumerConnect ''archive'' 99 100) [fragment_100, fragment_100])"
  by (simp add: arrive_def sample_defs consumer_defs int_defs Let_def)

text \<open>
  Claim C5, amended. When handling a fragment raises, the exception is caught and
  the fragments after it are handled from the consumer as the call-back left it. The
  TO buffer ends as in the run without the fragment. So does the FROM buffer unless
  the exception is the one raised by the fragment's TO channel extraction; in that
  case the FROM data that the fragment returned may already be in the buffer.
\<close>

theorem raising_fragment_contribution:
  assumes "snd (on_fragment_arrived_try (arrive self before) fragment_dom) = Some err"
  shows "arrive self (before @ fragment_dom # after)
           = arrive (on_fragment_arrived (arrive self before) fragment_dom) after \<and>
         to_audio_fragments (arrive self (before @ fragment_dom # after))
           = to_audio_fragments (arrive self (before @ after)) \<and>
         (save_connect_fragment_audio_track_to_customer fragment_dom \<noteq> Inl err \<longrightarrow>
            from_audio_fragments (arrive self (before @ fragment_dom # after))
              = from_audio_fragments (arrive self (before @ after))) \<and>
         (from_audio_fragments (arrive self (before @ fragment_dom # after))
              = from_audio_fragments (arrive self (before @ after)) \<or>
          save_connect_fragment_audio_track_to_customer fragment_dom = Inl err \<and>
          (\<exists>data. save_connect_fragment_audio_track_from_customer fragment_dom = Inr (Some data) \<and>
             from_audio_fragments (arrive self (before @ [fragment_dom]))
               = from_audio_fragments (arrive self before) @ data))"
proof -
  have e: "end_fragment (arrive self before) = end_fragment self" by (rule arrive_end)
  from assms have t: "to_added (end_fragment self) fragment_dom = []"
    using raised_to_added [of "arrive self before" fragment_dom err] e by simp
  have f: "from_added (end_fragment self) fragment_dom = []"
    if "save_connect_fragment_audio_track_to_customer fragment_dom \<noteq> Inl err"
    using raised_from_added [OF assms that] e by simp
  have c: "arrive self (before @ fragment_dom # after)
           = arrive (on_fragment_arrived (arrive self before) fragment_dom) after"
    by (simp add: arrive_def)
  have k: "from_added (end_fragment self) fragment_dom = [] \<or>
     (save_connect_fragment_audio_track_to_customer fragment_dom = Inl err \<and>
      save_connect_fragment_audio_track_from_customer fragment_dom
        = Inr (Some (from_added (end_fragment self) fragment_dom)))"
    using raised_from_kept [OF assms] e by simp
  have "from_audio_fragments (arrive self (before @ fragment_dom # after))
              = from_audio_fragments (arrive self (before @ after)) \<or>
          save_connect_fragment_audio_track_to_customer fragment_dom = Inl err \<and>
          (\<exists>data. save_connect_fragment_audio_track_from_customer fragment_dom = Inr (Some data) \<and>
             from_audio_fragments (arrive self (before @ [fragment_dom]))
               = from_audio_fragments (arrive self before) @ data)"
    using k by (auto simp add: arrive_from)
  then show ?thesis using c t f
    by (simp add: arrive_to arrive_from arrive_end step_end step_to step_from)
qed

theorem raising_fragment_contribution_witness:
  "snd (on_fragment_arrived_try
          (arrive (KvsPythonConsumerConnect ''archive'' 99 100) [fragment_100]) fragment_corrupt)
     = Some (External ''corrupt fragment'') \<and>
   save_connect_fragment_audio_track_to_customer fragment_corrupt
     \<noteq> Inl (External ''corrupt fragment'') \<and>
   to_audio_fragments
     (arrive (KvsPythonConsumerConnect ''archive'' 99 100)
        ([fragment_100] @ fragment_corrupt # [fragment_100]))
     = to_audio_fragments
         (arrive (KvsPythonConsumerConnect ''archive'' 99 100) ([fragment_100] @ [fragment_100])) \<and>
   from_audio_fragments
     (arrive (KvsPythonConsumerConnect ''archive'' 99 100)
        ([fragment_100] @ fragment_corrupt # [fragment_100]))
     = from_audio_fragments
         (arrive (KvsPythonConsumerConnect ''archive'' 99 100) ([fragment_100] @ [fragment_100])) \<and>
   from_audio_fragments
     (arrive (KvsPythonConsumerConnect ''archive'' 99 100) [fragment_100, fragment_corrupt, fragment_100])
     = [1, 2, 3, 4, 1, 2, 3, 4]"
proof -
  have h: "snd (on_fragment_arrived_try
          (arrive (KvsPythonConsumerConnect ''archive'' 99 100) [fragment_100]) fragment_corrupt)
     = Some (External ''corrupt fragment'')"
    by (simp add: arrive_def sample_defs consumer_defs int_defs Let_def)
  have n: "save_connect_fragment_audio_track_to_customer fragment_corrupt
     \<noteq> Inl (External ''corrupt fragment'')"
    by (simp add: fragment_corrupt_def)
  have v: "from_audio_fragments
     (arrive (KvsPythonConsumerConnect ''archive'' 99 100) [fragment_100, fragment_corrupt, fragment_100])
     = [1, 2, 3, 4, 1, 2, 3, 4]"
    by (simp add: arrive_def sample_defs consumer_defs int_defs Let_def)
  note r = raising_fragment_contribution [OF h, of "[fragment_100]"]
  from r n h v show ?thesis by blast
qed

subsection \<open>Events after termination\<close>

lemma deliver_flag:
  "past_end_fragment self \<Longrightarrow> past_end_fragment (deliver w self evs)"
  unfolding deliver_def by (induction evs arbitrary: self) (simp_all add: callback_flag)

lemma deliver_complete:
  "StreamReadComplete \<in> set evs \<Longrightarrow> past_end_fragment (deliver w self evs)"
proof (induction evs arbitrary: self)
  case Nil
  then show ?case by simp
next
  case (Cons ev evs)
  show ?case
  proof (cases "ev = StreamReadComplete")
    case True
    then have "past_end_fragment (callback w self ev)" by (simp add: on_stream_read_complete_flag)
    from deliver_flag [OF this, of w evs] show ?thesis by (simp add: deliver_def)
  next
    case False
    with Cons.prems have "StreamReadComplete \<in> set evs" by auto
    from Cons.IH [OF this, of "callback w self ev"] show ?thesis by (simp add: deliver_def)
  qed
qed

lemma terminations_count:
  "terminations w self evs =
     (if past_end_fragment self then 0 else if past_end_fragment (deliver w self evs) then 1 else 0)"
proof (induction evs arbitrary: self)
  case Nil
  show ?case by (simp add: terminations_def deliver_def)
next
  case (Cons ev evs)
  have step: "terminations w self (ev # evs) =
      (if \<not> past_end_fragment self \<and> past_end_fragment (callback w self ev) then 1 else 0)
      + terminations w (callback w self ev) evs"
    by (simp add: terminations_def)
  have d: "deliver w self (ev # evs) = deliver w (callback w self ev) evs"
    by (simp add: deliver_def)
  show ?case
  proof (cases "past_end_fragment self")
    case True
    then have "past_end_fragment (callback w self ev)" by (rule callback_flag)
    with True step Cons.IH [of "callback w self ev"] show ?thesis by simp
  next
    case False
    show ?thesis
    proof (cases "past_end_fragment (callback w self ev)")
      case True
      from deliver_flag [OF True, of w evs] True False step d Cons.IH [of "callback w self ev"]
      show ?thesis by simp
    next
      case nf: False
      with False step d Cons.IH [of "callback w self ev"] show ?thesis by simp
    qed
  qed
qed

lemma complete_fixed:
  "stream_name (on_stream_read_complete w self) = stream_name self \<and>
   start_fragment (on_stream_read_complete w self) = start_fragment self \<and>
   end_fragment (on_stream_read_complete w self) = end_fragment self"
  by (auto simp add: on_stream_read_complete_def on_stream_read_complete_try_def
      split: sum.splits if_splits)

lemma arrived_fixed:
  "stream_name (on_fragment_arrived self f) = stream_name self \<and>
   start_fragment (on_fragment_arrived self f) = start_fragment self \<and>
   end_fragment (on_fragment_arrived self f) = end_fragment self"
  by (simp add: on_fragment_arrived_def on_fragment_arrived_try_def Let_def
      split: sum.splits option.splits)

lemma callback_fixed:
  "stream_name (callback w self ev) = stream_name self \<and>
   start_fragment (callback w self ev) = start_fragment self \<and>
   end_fragment (callback w self ev) = end_fragment self"
  by (cases ev) (simp_all add: arrived_fixed complete_fixed on_stream_read_exception_def)

text \<open>
  Claim C6 fails as it is stated. The fragments 100 and 101 have arrived, the second
  one past the end, so the flag is set and nothing is packaged. A stream-complete
  event that comes now is not ignored: it packages the FROM buffer and so changes
  the consumer. Neither is a further fragment in range: its data is appended.
\<close>

theorem late_event_changes_consumer:
  "past_end_fragment (deliver sample_wave (KvsPythonConsumerConnect ''bounded'' 99 100)
      [FragmentArrived fragment_100, FragmentArrived fragment_101]) \<and>
   from_customer_audio (deliver sample_wave (KvsPythonConsumerConnect ''bounded'' 99 100)
      [FragmentArrived fragment_100, FragmentArrived fragment_101]) = None \<and>
   from_customer_audio (callback sample_wave
      (deliver sample_wave (KvsPythonConsumerConnect ''bounded'' 99 100)
        [FragmentArrived fragment_100, FragmentArrived fragment_101]) StreamReadComplete)
     = Some [82, 73, 70, 70, 1, 2, 3, 4] \<and>
   callback sample_wave
      (deliver sample_wave (KvsPythonConsumerConnect ''bounded'' 99 100)
        [FragmentArrived fragment_100, FragmentArrived fragment_101]) StreamReadComplete
     \<noteq> deliver sample_wave (KvsPythonConsumerConnect ''bounded'' 99 100)
        [FragmentArrived fragment_100, FragmentArrived fragment_101] \<and>
   from_audio_fragments (callback sample_wave
      (deliver sample_wave (KvsPythonConsumerConnect ''bounded'' 99 100)
        [FragmentArrived fragment_100, FragmentArrived fragment_101]) (FragmentArrived fragment_100))
     = [1, 2, 3, 4, 1, 2, 3, 4]"
  by (simp add: deliver_def sample_defs consumer_defs int_defs Let_def)

lemma arrived_ignores_flag:
  "past_end_fragment self \<Longrightarrow>
   on_fragment_arrived self f =
     (on_fragment_arrived (self\<lparr>past_end_fragment := False\<rparr>) f)\<lparr>past_end_fragment := True\<rparr>"
  by (simp add: on_fragment_arrived_def on_fragment_arrived_try_def Let_def
      split: sum.splits option.splits)

lemma complete_ignores_flag:
  "on_stream_read_complete w self =
     (on_stream_read_complete w (self\<lparr>past_end_fragment := False\<rparr>))\<lparr>past_end_fragment := True\<rparr>"
  by (auto simp add: on_stream_read_complete_def on_stream_read_complete_try_def
      split: sum.splits)

lemma callback_ignores_flag:
  "past_end_fragment self \<Longrightarrow>
   callback w self ev =
     (callback w (self\<lparr>past_end_fragment := False\<rparr>) ev)\<lparr>past_end_fragment := True\<rparr>"
  by (cases ev)
    (simp_all add: arrived_ignores_flag [symmetric] complete_ignores_flag [symmetric]
      on_stream_read_exception_def)

lemma late_complete_packages:
  "(to_audio_fragments self = [] \<or>
      (\<exists>x. convert_track_to_wav w (to_audio_fragments self) = Inr x)) \<and>
   from_audio_fragments self \<noteq> [] \<and>
   convert_track_to_wav w (from_audio_fragments self) = Inr wav \<Longrightarrow>
   from_customer_audio (callback w self StreamReadComplete) = Some wav"
  by (auto simp add: on_stream_read_complete_def on_stream_read_complete_try_def)

lemma late_fragment_recorded:
  "get_fragment_tags fragment_dom = Inr tags \<Longrightarrow>
   last_good_fragment_tags (callback w self (FragmentArrived fragment_dom)) = Some tags"
  by (simp add: on_fragment_arrived_def on_fragment_arrived_try_def Let_def
      split: sum.splits option.splits)

lemma late_fragment_appended:
  "get_fragment_tags fragment_dom = Inr tags \<and>
   map_of tags ''AWS_KINESISVIDEO_FRAGMENT_NUMBER'' = Some number \<and>
   int_of_str number = Inr f \<and> f \<le> end_fragment self \<and>
   save_connect_fragment_audio_track_from_customer fragment_dom = Inr (Some data) \<and>
   data \<noteq> [] \<Longrightarrow>
   from_audio_fragments (callback w self (FragmentArrived fragment_dom))
     = from_audio_fragments self @ data"
  by (simp add: on_fragment_arrived_def on_fragment_arrived_try_def Let_def
      split: sum.splits option.splits)

text \<open>
  Claim C6, amended. Along any fragment arrivals followed by the stream-complete
  event and by any later events, the flag of a new consumer goes from unset to set
  exactly once, and it is set at the end. An event that reaches a terminated
  consumer raises nothing (every call-back catches what its body raises) and leaves
  the flag set and the stream name and both bounds as they were; a read exception
  changes nothing at all. But the call-backs never test the flag: flag aside, a late
  event does to the terminated consumer exactly what it does to the same consumer
  with the flag unset. So, terminated or not: a stream-complete event packages a
  FROM buffer that is not empty, provided the packaging succeeds and the TO buffer
  is empty or packaged without an exception; a fragment whose tags can be read
  leaves them as the last seen; and a fragment in range whose FROM channel returns
  data has that data appended to the FROM buffer.
\<close>

theorem terminates_once_flag_stays:
  "terminations w (KvsPythonConsumerConnect name a b)
      (map FragmentArrived fragments @ StreamReadComplete # late) = 1 \<and>
   past_end_fragment (deliver w (KvsPythonConsumerConnect name a b)
      (map FragmentArrived fragments @ StreamReadComplete # late)) \<and>
   (past_end_fragment self \<longrightarrow>
      past_end_fragment (callback w self ev) \<and>
      stream_name (callback w self ev) = stream_name self \<and>
      start_fragment (callback w self ev) = start_fragment self \<and>
      end_fragment (callback w self ev) = end_fragment self) \<and>
   callback w self (StreamReadException error) = self \<and>
   (past_end_fragment self \<longrightarrow>
      callback w self ev =
        (callback w (self\<lparr>past_end_fragment := False\<rparr>) ev)\<lparr>past_end_fragment := True\<rparr>) \<and>
   ((to_audio_fragments self = [] \<or>
       (\<exists>x. convert_track_to_wav w (to_audio_fragments self) = Inr x)) \<and>
    from_audio_fragments self \<noteq> [] \<and>
    convert_track_to_wav w (from_audio_fragments self) = Inr wav \<longrightarrow>
      from_customer_audio (callback w self StreamReadComplete) = Some wav) \<and>
   (get_fragment_tags fragment_dom = Inr tags \<longrightarrow>
      last_good_fragment_tags (callback w self (FragmentArrived fragment_dom)) = Some tags) \<and>
   (get_fragment_tags fragment_dom = Inr tags \<and>
    map_of tags ''AWS_KINESISVIDEO_FRAGMENT_NUMBER'' = Some number \<and>
    int_of_str number = Inr f \<and> f \<le> end_fragment self \<and>
    save_connect_fragment_audio_track_from_customer fragment_dom = Inr (Some data) \<and>
    data \<noteq> [] \<longrightarrow>
      from_audio_fragments (callback w self (FragmentArrived fragment_dom))
        = from_audio_fragments self @ data)"
proof -
  have "StreamReadComplete \<in> set (map FragmentArrived fragments @ StreamReadComplete # late)"
    by simp
  from deliver_complete [OF this, of w "KvsPythonConsumerConnect name a b"]
  have d: "past_end_fragment (deliver w (KvsPythonConsumerConnect name a b)
      (map FragmentArrived fragments @ StreamReadComplete # late))" .
  have n: "\<not> past_end_fragment (KvsPythonConsumerConnect name a b)"
    by (simp add: KvsPythonConsumerConnect_def)
  from d n have t: "terminations w (KvsPythonConsumerConnect name a b)
      (map FragmentArrived fragments @ StreamReadComplete # late) = 1"
    by (simp add: terminations_count)
  have x: "callback w self (StreamReadException error) = self"
    by (simp add: on_stream_read_exception_def)
  from t d x callback_flag [of self w ev] callback_fixed [of w self ev]
    callback_ignores_flag [of self w ev] late_complete_packages [of self w wav]
    late_fragment_recorded [of fragment_dom tags w self]
    late_fragment_appended [of fragment_dom tags number f self data w]
  show ?thesis by blast
qed

theorem terminates_once_flag_stays_witness:
  "terminations sample_wave (KvsPythonConsumerConnect ''bounded'' 99 100)
      (map FragmentArrived [fragment_100, fragment_101] @ StreamReadComplete #
         [FragmentArrived fragment_100, StreamReadComplete]) = 1 \<and>
   flags_after sample_wave (KvsPythonConsumerConnect ''bounded'' 99 100)
      [FragmentArrived fragment_100, FragmentArrived fragment_101, StreamReadComplete,
       FragmentArrived fragment_100, StreamReadComplete] = [False, True, True, True, True] \<and>
   past_end_fragment (deliver sample_wave (KvsPythonConsumerConnect ''bounded'' 99 100)
      [FragmentArrived fragment_100, FragmentArrived fragment_101]) \<and>
   past_end_fragment (callback sample_wave
      (deliver sample_wave (KvsPythonConsumerConnect ''bounded'' 99 100)
        [FragmentArrived fragment_100, FragmentArrived fragment_101]) StreamReadComplete) \<and>
   to_audio_fragments (deliver sample_wave (KvsPythonConsumerConnect ''bounded'' 99 100)
      [FragmentArrived fragment_100, FragmentArrived fragment_101]) = [] \<and>
   from_audio_fragments (deliver sample_wave (KvsPythonConsumerConnect ''bounded'' 99 100)
      [FragmentArrived fragment_100, FragmentArrived fragment_101]) = bytes_A \<and>
   bytes_A \<noteq> [] \<and>
   convert_track_to_wav sample_wave bytes_A = Inr (82 # 73 # 70 # 70 # bytes_A) \<and>
   from_customer_audio (callback sample_wave
      (deliver sample_wave (KvsPythonConsumerConnect ''bounded'' 99 100)
        [FragmentArrived fragment_100, FragmentArrived fragment_101]) StreamReadComplete)
     = Some (82 # 73 # 70 # 70 # bytes_A) \<and>
   get_fragment_tags fragment_100 = Inr (fragment_number_tag ''100'') \<and>
   map_of (fragment_number_tag ''100'') ''AWS_KINESISVIDEO_FRAGMENT_NUMBER'' = Some ''100'' \<and>
   int_of_str ''100'' = Inr 100 \<and>
   100 \<le> end_fragment (deliver sample_wave (KvsPythonConsumerConnect ''bounded'' 99 100)
      [FragmentArrived fragment_100, FragmentArrived fragment_101]) \<and>
   save_connect_fragment_audio_track_from_customer fragment_100 = Inr (Some bytes_A) \<and>
   last_good_fragment_tags (callback sample_wave
      (deliver sample_wave (KvsPythonConsumerConnect ''bounded'' 99 100)
        [FragmentArrived fragment_100, FragmentArrived fragment_101])
      (FragmentArrived fragment_100)) = Some (fragment_number_tag ''100'') \<and>
   from_audio_fragments (callback sample_wave
      (deliver sample_wave (KvsPythonConsumerConnect ''bounded'' 99 100)
        [FragmentArrived fragment_100, FragmentArrived fragment_101])
      (FragmentArrived fragment_100)) = bytes_A @ bytes_A"
proof -
  have v: "deliver sample_wave (KvsPythonConsumerConnect ''bounded'' 99 100)
      [FragmentArrived fragment_100, FragmentArrived fragment_101] =
     \<lparr>stream_name = ''bounded'', start_fragment = 99, end_fragment = 100,
      last_good_fragment_tags = Some (fragment_number_tag ''101''), past_end_fragment = True,
      from_audio_fragments = bytes_A, to_audio_fragments = [],
      to_customer_audio = None, from_customer_audio = None\<rparr>"
    by (simp add: deliver_def sample_defs consumer_defs int_defs Let_def)
  have h: "past_end_fragment (deliver sample_wave (KvsPythonConsumerConnect ''bounded'' 99 100)
      [FragmentArrived fragment_100, FragmentArrived fragment_101])"
    "to_audio_fragments (deliver sample_wave (KvsPythonConsumerConnect ''bounded'' 99 100)
      [FragmentArrived fragment_100, FragmentArrived fragment_101]) = []"
    "from_audio_fragments (deliver sample_wave (KvsPythonConsumerConnect ''bounded'' 99 100)
      [FragmentArrived fragment_100, FragmentArrived fragment_101]) = bytes_A"
    "100 \<le> end_fragment (deliver sample_wave (KvsPythonConsumerConnect ''bounded'' 99 100)
      [FragmentArrived fragment_100, FragmentArrived fragment_101])"
    by (simp_all add: v)
  have ne: "bytes_A \<noteq> []" by (simp add: bytes_A_def)
  have cv: "convert_track_to_wav sample_wave bytes_A = Inr (82 # 73 # 70 # 70 # bytes_A)"
    by (simp add: convert_track_to_wav_def sample_wave_def)
  have fl: "flags_after sample_wave (KvsPythonConsumerConnect ''bounded'' 99 100)
      [FragmentArrived fragment_100, FragmentArrived fragment_101, StreamReadComplete,
       FragmentArrived fragment_100, StreamReadComplete] = [False, True, True, True, True]"
    by (simp add: sample_defs consumer_defs int_defs Let_def)
  have g: "get_fragment_tags fragment_100 = Inr (fragment_number_tag ''100'')"
    "save_connect_fragment_audio_track_from_customer fragment_100 = Inr (Some bytes_A)"
    by (simp_all add: fragment_100_def)
  have m: "map_of (fragment_number_tag ''100'') ''AWS_KINESISVIDEO_FRAGMENT_NUMBER'' = Some ''100''"
    by (simp add: fragment_number_tag_def)
  have p: "int_of_str ''100'' = Inr 100" by (simp add: int_defs)
  note T = terminates_once_flag_stays [where w = sample_wave and name = "''bounded''"
      and a = 99 and b = 100 and fragments = "[fragment_100, fragment_101]"
      and late = "[FragmentArrived fragment_100, StreamReadComplete]"
      and self = "deliver sample_wave (KvsPythonConsumerConnect ''bounded'' 99 100)
        [FragmentArrived fragment_100, FragmentArrived fragment_101]"
      and wav = "82 # 73 # 70 # 70 # bytes_A" and fragment_dom = fragment_100
      and tags = "fragment_number_tag ''100''" and number = "''100''" and f = 100
      and data = bytes_A]
  have c1: "terminations sample_wave (KvsPythonConsumerConnect ''bounded'' 99 100)
      (map FragmentArrived [fragment_100, fragment_101] @ StreamReadComplete #
         [FragmentArrived fragment_100, StreamReadComplete]) = 1"
    using T by blast
  have c2: "past_end_fragment (callback sample_wave
      (deliver sample_wave (KvsPythonConsumerConnect ''bounded'' 99 100)
        [FragmentArrived fragment_100, FragmentArrived fragment_101]) StreamReadComplete)"
    using T [where ev = StreamReadComplete] h(1) by blast
  have c3: "from_customer_audio (callback sample_wave
      (deliver sample_wave (KvsPythonConsumerConnect ''bounded'' 99 100)
        [FragmentArrived fragment_100, FragmentArrived fragment_101]) StreamReadComplete)
     = Some (82 # 73 # 70 # 70 # bytes_A)"
    using T h(2,3) ne cv by simp
  have c4: "last_good_fragment_tags (callback sample_wave
      (deliver sample_wave (KvsPythonConsumerConnect ''bounded'' 99 100)
        [FragmentArrived fragment_100, FragmentArrived fragment_101])
      (FragmentArrived fragment_100)) = Some (fragment_number_tag ''100'')"
    using T g(1) by blast
  have c5: "from_audio_fragments (callback sample_wave
      (deliver sample_wave (KvsPythonConsumerConnect ''bounded'' 99 100)
        [FragmentArrived fragment_100, FragmentArrived fragment_101])
      (FragmentArrived fragment_100)) = bytes_A @ bytes_A"
    using T g m p h(3,4) ne by simp
  from c1 c2 c3 c4 c5 fl h ne cv g m p show ?thesis by blast
qed

section \<open>The batch as a whole\<close>

subsection \<open>When the handler returns\<close>

lemma tags_after_flag:
  "vm_flag_of vm_record = Inr flag \<Longrightarrow> \<exists>tagging. vm_tags env vm_record = Inr tagging"
proof -
  assume a: "vm_flag_of vm_record = Inr flag"
  then obtain attributes where b: "py_getitem vm_record ''Attributes'' = Inr attributes"
    and c: "py_get attributes ''vm_flag'' (JStr ''99'') = Inr flag"
    by (auto simp add: vm_flag_of_def try_bind_def split: sum.splits)
  from c obtain items where i: "attributes = JObj items" by (cases attributes) auto
  from b obtain kvs where k: "vm_record = JObj kvs" by (cases vm_record) auto
  from b k i have "py_get vm_record ''Attributes'' (JObj []) = Inr (JObj items)"
    by (auto split: option.splits)
  then show ?thesis by (simp add: vm_tags_def try_bind_def Let_def)
qed

lemma set_result_entry:
  "map_of (response_container (set_result st text)) (record_label (total_record_count st))
     = Some text"
  by (simp add: set_result_def dict_set_lookup)

lemma upload_failures:
  "(service_loop (kinesis_video env (total_record_count st)) (wave env)
       (KvsPythonConsumerConnect stream a b) = Inl e \<longrightarrow>
     upload env st cid stream a b t =
       Some (write_failed env (st\<lparr>calls := calls st @ [NewConsumer stream a b]\<rparr>) cid)) \<and>
   (service_loop (kinesis_video env (total_record_count st)) (wave env)
       (KvsPythonConsumerConnect stream a b) = Inr (Some processor) \<and>
    (from_customer_audio processor = None \<or> (\<forall>contact. cid \<noteq> JStr contact)) \<longrightarrow>
     upload env st cid stream a b t =
       Some (write_failed env (st\<lparr>calls := calls st @ [NewConsumer stream a b]\<rparr>) cid)) \<and>
   (service_loop (kinesis_video env (total_record_count st)) (wave env)
       (KvsPythonConsumerConnect stream a b) = Inr (Some processor) \<and>
    from_customer_audio processor = Some audio \<and> cid = JStr contact \<and>
    utc_today env (total_record_count st) = (year, month, day) \<and>
    put_object env (total_record_count st) (BUCKET_NAME env)
      (RECORDING_PATH env @ year @ ''/'' @ month @ ''/'' @ day @ ''/'' @ contact @ ''.wav'')
      audio AUDIO_MIME_TYPE t = Some e \<longrightarrow>
     upload env st cid stream a b t =
       Some (write_failed env
         (st\<lparr>calls := calls st @
            [NewConsumer stream a b,
             PutObject (BUCKET_NAME env)
               (RECORDING_PATH env @ year @ ''/'' @ month @ ''/'' @ day @ ''/'' @ contact @ ''.wav'')
               audio AUDIO_MIME_TYPE t]\<rparr>) cid))"
  by (auto simp add: upload_def Let_def split: json.splits option.splits prod.splits)

lemma dec_more:
  "dec (Suc (Suc (Suc (Suc 0)))) = ''4''"
  "dec (Suc (Suc (Suc (Suc (Suc 0))))) = ''5''"
  "dec (Suc (Suc (Suc (Suc (Suc (Suc 0)))))) = ''6''"
proof -
  have "dec 4 = ''4''" "dec 5 = ''5''" "dec 6 = ''6''"
    by (simp_all add: dec.simps digit_char_def char_of_def bit_0)
  then show "dec (Suc (Suc (Suc (Suc 0)))) = ''4''"
    "dec (Suc (Suc (Suc (Suc (Suc 0))))) = ''5''"
    "dec (Suc (Suc (Suc (Suc (Suc (Suc 0)))))) = ''6''"
    by (simp_all add: eval_nat_numeral)
qed

lemma upload_answers:
  assumes "service_loop (kinesis_video env (total_record_count st)) (wave env)
             (KvsPythonConsumerConnect stream a b) \<noteq> Inr None"
  shows "\<exists>st'. upload env st cid stream a b t = Some st'"
  using assms
  by (auto simp add: upload_def Let_def split: sum.splits option.splits prod.splits json.splits)

lemma process_record_answers:
  assumes "\<forall>vm cid stream a b.
      extract_record env r = Inr (vm, cid) \<and> vm_flag_of vm = Inr (JStr ''1'') \<and>
      kvs_info vm = Inr (stream, a, b) \<longrightarrow>
        service_loop (kinesis_video env (total_record_count st + 1)) (wave env)
          (KvsPythonConsumerConnect stream a b) \<noteq> Inr None"
  shows "\<exists>st'. process_record env st r = Some st'"
proof (cases "extract_record env r")
  case (Inl e)
  then show ?thesis by (simp add: process_record_def)
next
  case (Inr p)
  obtain vm cid where p: "p = (vm, cid)" by (cases p)
  show ?thesis
  proof (cases "vm_flag_of vm = Inr (JStr ''1'')")
    case False
    with Inr p show ?thesis by (simp add: process_record_def Let_def split: sum.splits)
  next
    case True
    show ?thesis
    proof (cases "kvs_info vm")
      case (Inl e)
      with Inr p True show ?thesis by (simp add: process_record_def process_voicemail_def)
    next
      case k: (Inr q)
      obtain stream a b where q: "q = (stream, a, b)" by (cases q)
      from tags_after_flag [OF True, of env] obtain t where t: "vm_tags env vm = Inr t" by blast
      from assms Inr p True k q
      have "service_loop (kinesis_video env (total_record_count st + 1)) (wave env)
          (KvsPythonConsumerConnect stream a b) \<noteq> Inr None" by blast
      then have "\<exists>st'. upload env (st\<lparr>total_record_count := total_record_count st + 1\<rparr>)
           cid stream a b t = Some st'"
        by (intro upload_answers) simp
      with Inr p True k q t show ?thesis
        by (simp add: process_record_def process_voicemail_def)
    qed
  qed
qed

lemma process_record_waits:
  assumes "extract_record env r = Inr (vm, cid)" "vm_flag_of vm = Inr (JStr ''1'')"
    "kvs_info vm = Inr (stream, a, b)"
    "service_loop (kinesis_video env (total_record_count st + 1)) (wave env)
          (KvsPythonConsumerConnect stream a b) = Inr None"
  shows "process_record env st r = None"
proof -
  from tags_after_flag [OF assms(2), of env] obtain t where t: "vm_tags env vm = Inr t" by blast
  with assms show ?thesis
    by (simp add: process_record_def process_voicemail_def upload_def)
qed

lemma process_records_answer:
  assumes "\<forall>i < length rs. \<forall>vm cid stream a b.
      extract_record env (rs ! i) = Inr (vm, cid) \<and> vm_flag_of vm = Inr (JStr ''1'') \<and>
      kvs_info vm = Inr (stream, a, b) \<longrightarrow>
        service_loop (kinesis_video env (total_record_count st + i + 1)) (wave env)
          (KvsPythonConsumerConnect stream a b) \<noteq> Inr None"
  shows "\<exists>st'. process_records env st rs = Some st'"
  using assms
proof (induction rs arbitrary: st)
  case Nil
  show ?case by simp
next
  case (Cons r rs)
  from Cons.prems have "\<forall>vm cid stream a b.
      extract_record env r = Inr (vm, cid) \<and> vm_flag_of vm = Inr (JStr ''1'') \<and>
      kvs_info vm = Inr (stream, a, b) \<longrightarrow>
        service_loop (kinesis_video env (total_record_count st + 1)) (wave env)
          (KvsPythonConsumerConnect stream a b) \<noteq> Inr None"
    by fastforce
  from process_record_answers [OF this] obtain st1
    where st1: "process_record env st r = Some st1" by blast
  from process_record_total [OF st1] have n: "total_record_count st1 = total_record_count st + 1" .
  have "\<forall>i < length rs. \<forall>vm cid stream a b.
      extract_record env (rs ! i) = Inr (vm, cid) \<and> vm_flag_of vm = Inr (JStr ''1'') \<and>
      kvs_info vm = Inr (stream, a, b) \<longrightarrow>
        service_loop (kinesis_video env (total_record_count st1 + i + 1)) (wave env)
          (KvsPythonConsumerConnect stream a b) \<noteq> Inr None"
  proof (intro allI impI)
    fix i vm cid stream a b
    assume i: "i < length rs"
      and h: "extract_record env (rs ! i) = Inr (vm, cid) \<and> vm_flag_of vm = Inr (JStr ''1'') \<and>
        kvs_info vm = Inr (stream, a, b)"
    from i have "Suc i < length (r # rs)" by simp
    with Cons.prems h
    have "service_loop (kinesis_video env (total_record_count st + Suc i + 1)) (wave env)
          (KvsPythonConsumerConnect stream a b) \<noteq> Inr None"
      by (metis nth_Cons_Suc)
    then show "service_loop (kinesis_video env (total_record_count st1 + i + 1)) (wave env)
          (KvsPythonConsumerConnect stream a b) \<noteq> Inr None"
      by (simp add: n)
  qed
  from Cons.IH [OF this] st1 show ?case by simp
qed

lemma process_records_wait:
  assumes "i < length rs" "extract_record env (rs ! i) = Inr (vm, cid)"
    "vm_flag_of vm = Inr (JStr ''1'')" "kvs_info vm = Inr (stream, a, b)"
    "service_loop (kinesis_video env (total_record_count st + i + 1)) (wave env)
          (KvsPythonConsumerConnect stream a b) = Inr None"
  shows "process_records env st rs = None"
  using assms
proof (induction rs arbitrary: st i)
  case Nil
  then show ?case by simp
next
  case (Cons r rs)
  show ?case
  proof (cases "process_record env st r")
    case None
    then show ?thesis by simp
  next
    case (Some st1)
    from process_record_total [OF Some] have n: "total_record_count st1 = total_record_count st + 1" .
    show ?thesis
    proof (cases i)
      case 0
      with Cons.prems have "process_record env st r = None"
        by (intro process_record_waits [of env r vm cid stream a b]) simp_all
      with Some show ?thesis by simp
    next
      case (Suc j)
      with Cons.prems n have "process_records env st1 rs = None"
        by (intro Cons.IH [of j]) simp_all
      with Some show ?thesis by simp
    qed
  qed
qed

lemma dec_inj: "dec n = dec m \<Longrightarrow> n = m"
  by (metis decimal_value_dec)

lemma record_label_inj: "record_label n = record_label m \<Longrightarrow> n = m"
  by (simp add: record_label_def dec_inj)

lemma process_record_keeps:
  assumes "process_record env st r = Some st'"
    and "k \<noteq> record_label (total_record_count st + 1)"
  shows "map_of (response_container st') k = map_of (response_container st) k"
  using assms
  by (auto simp add: process_record_def process_voicemail_def upload_def write_failed_def
      set_result_def count_processed_def Let_def dict_set_other
      split: sum.splits option.splits if_splits prod.splits json.splits)

lemma process_records_keep:
  assumes "process_records env st rs = Some st'" and "j \<le> total_record_count st"
  shows "map_of (response_container st') (record_label j)
           = map_of (response_container st) (record_label j)"
  using assms
proof (induction rs arbitrary: st)
  case Nil
  then show ?case by simp
next
  case (Cons r rs)
  then obtain st1 where a: "process_record env st r = Some st1"
    and b: "process_records env st1 rs = Some st'"
    by (auto split: option.splits)
  from process_record_total [OF a] have n: "total_record_count st1 = total_record_count st + 1" .
  from Cons.prems(2) have "record_label j \<noteq> record_label (total_record_count st + 1)"
    using record_label_inj [of j "total_record_count st + 1"] by auto
  from process_record_keeps [OF a this] Cons.IH [OF b] Cons.prems(2) n show ?case by simp
qed

lemma process_records_append:
  "process_records env st (xs @ ys) =
     (case process_records env st xs of None \<Rightarrow> None | Some s \<Rightarrow> process_records env s ys)"
  by (induction xs arbitrary: st) (simp_all split: option.splits)

lemma entry_survives:
  assumes "process_records env st (earlier @ x # later) = Some final"
  shows "\<exists>s1 s2. process_records env st earlier = Some s1 \<and> process_record env s1 x = Some s2 \<and>
      total_record_count s2 = total_record_count st + length earlier + 1 \<and>
      map_of (response_container final) (record_label (total_record_count s2))
        = map_of (response_container s2) (record_label (total_record_count s2))"
proof -
  from assms obtain s1 where s1: "process_records env st earlier = Some s1"
    and r: "process_records env s1 (x # later) = Some final"
    by (auto simp add: process_records_append split: option.splits)
  from r obtain s2 where s2: "process_record env s1 x = Some s2"
    and l: "process_records env s2 later = Some final"
    by (auto split: option.splits)
  from process_records_total [OF s1] process_record_total [OF s2]
  have n: "total_record_count s2 = total_record_count st + length earlier + 1" by simp
  from process_records_keep [OF l, of "total_record_count s2"] s1 s2 n show ?thesis by simp
qed
text \<open>
  Claim C9 fails as it is stated. An event without \<^verbatim>\<open>Records\<close>, or with \<^verbatim>\<open>Records\<close>
  that cannot be iterated, raises out of the handler: line 48 is outside every
  \<^verbatim>\<open>try\<close>. And a record whose stream ends in a read exception, with no fragment
  past the end and no stream-complete event, leaves \<^verbatim>\<open>service_loop\<close> waiting for
  ever, so that the handler returns no report.
\<close>

theorem handler_raises_or_never_returns:
  "lambda_handler (sample_env 0) (JObj []) = Inl KeyError \<and>
   lambda_handler (sample_env 0) (JObj [(''Records'', JNull)]) = Inl TypeError \<and>
   lambda_handler (sample_env 0) (batch_event [''broken'']) = Inr None"
  by (simp add: sample_defs handler_defs consumer_defs int_defs Let_def dec_small)

text \<open>
  Claim C9, amended. For an event whose \<^verbatim>\<open>Records\<close> can be iterated, no exception
  leaves the handler. The handler returns the report (status code 200, the count of
  all records, the result mapping) when the wait of every consumer that it makes
  ends, that is, for every record with the flag \<^verbatim>\<open>"1"\<close> whose stream details are
  read, \<^verbatim>\<open>service_loop\<close> raises or returns. When one such wait never ends, the
  handler never returns. An exception in a record's stage
  becomes that record's result text and the loop goes on with the next record: a
  failed decoding, a failed reading of the flag, a failed extraction of the stream
  details, an exception of the transport, a missing packaged audio or a contact id
  that is not a string, a refusal of the store. The tagging stage cannot fail once
  the flag has been read. What a record's processing leaves under the record's own
  label is what the returned mapping holds under that label: the later records do
  not touch it.
\<close>

theorem batch_returns_report:
  assumes "py_getitem event ''Records'' = Inr records" and "py_iter records = Inr rs"
  shows "(\<exists>outcome. lambda_handler env event = Inr outcome) \<and>
    ((\<forall>i < length rs. \<forall>vm cid stream a b.
         extract_record env (rs ! i) = Inr (vm, cid) \<and> vm_flag_of vm = Inr (JStr ''1'') \<and>
         kvs_info vm = Inr (stream, a, b) \<longrightarrow>
           service_loop (kinesis_video env (i + 1)) (wave env)
             (KvsPythonConsumerConnect stream a b) \<noteq> Inr None) \<longrightarrow>
       (\<exists>st. process_records env initial_state rs = Some st \<and>
          lambda_handler env event = Inr (Some (response_of st, calls st)) \<and>
          statusCode (response_of st) = 200 \<and>
          recordResults (body (response_of st)) = response_container st \<and>
          total_record_count st = length rs)) \<and>
    (i < length rs \<and> extract_record env (rs ! i) = Inr (vm, vcid) \<and>
     vm_flag_of vm = Inr (JStr ''1'') \<and> kvs_info vm = Inr (vstream, va, vb) \<and>
     service_loop (kinesis_video env (i + 1)) (wave env)
       (KvsPythonConsumerConnect vstream va vb) = Inr None \<longrightarrow>
       lambda_handler env event = Inr None) \<and>
    (rs = earlier @ x # later \<and> process_records env initial_state rs = Some final \<longrightarrow>
       (\<exists>s1 s2. process_records env initial_state earlier = Some s1 \<and>
          process_record env s1 x = Some s2 \<and>
          total_record_count s2 = length earlier + 1 \<and>
          map_of (recordResults (body (response_of final))) (record_label (length earlier + 1))
            = map_of (response_container s2) (record_label (length earlier + 1)))) \<and>
    (extract_record env r = Inl e \<longrightarrow>
       process_record env st r =
         Some (set_result (st\<lparr>total_record_count := total_record_count st + 1\<rparr>)
                 ''Failed to extract record and/or decode'')) \<and>
    (extract_record env r = Inr (vm_record, cid) \<and> vm_flag_of vm_record = Inl e \<longrightarrow>
       process_record env st r =
         Some (set_result (st\<lparr>total_record_count := total_record_count st + 1\<rparr>)
                 (''ContactID: '' @ py_str (repr env) cid
                  @ '' - IGNORE - An error occurred whilst evaluating Voicemail Flag''))) \<and>
    (kvs_info vm_record = Inl e \<longrightarrow>
       process_voicemail env st vm_record cid = Some (set_result st ''Failed to extract KVS info'')) \<and>
    (vm_flag_of vm_record = Inr flag \<longrightarrow> (\<exists>tagging. vm_tags env vm_record = Inr tagging)) \<and>
    (kvs_info vm_record = Inr (stream, a, b) \<and> vm_tags env vm_record = Inr t \<longrightarrow>
       process_voicemail env st vm_record cid = upload env st cid stream a b t) \<and>
    (service_loop (kinesis_video env (total_record_count st)) (wave env)
       (KvsPythonConsumerConnect stream a b) = Inl e \<longrightarrow>
     upload env st cid stream a b t =
       Some (write_failed env (st\<lparr>calls := calls st @ [NewConsumer stream a b]\<rparr>) cid)) \<and>
    (service_loop (kinesis_video env (total_record_count st)) (wave env)
       (KvsPythonConsumerConnect stream a b) = Inr (Some processor) \<and>
     (from_customer_audio processor = None \<or> (\<forall>contact. cid \<noteq> JStr contact)) \<longrightarrow>
     upload env st cid stream a b t =
       Some (write_failed env (st\<lparr>calls := calls st @ [NewConsumer stream a b]\<rparr>) cid)) \<and>
    (service_loop (kinesis_video env (total_record_count st)) (wave env)
       (KvsPythonConsumerConnect stream a b) = Inr (Some processor) \<and>
     from_customer_audio processor = Some audio \<and> cid = JStr contact \<and>
     utc_today env (total_record_count st) = (year, month, day) \<and>
     put_object env (total_record_count st) (BUCKET_NAME env)
       (RECORDING_PATH env @ year @ ''/'' @ month @ ''/'' @ day @ ''/'' @ contact @ ''.wav'')
       audio AUDIO_MIME_TYPE t = Some e \<longrightarrow>
     upload env st cid stream a b t =
       Some (write_failed env
         (st\<lparr>calls := calls st @
            [NewConsumer stream a b,
             PutObject (BUCKET_NAME env)
               (RECORDING_PATH env @ year @ ''/'' @ month @ ''/'' @ day @ ''/'' @ contact @ ''.wav'')
               audio AUDIO_MIME_TYPE t]\<rparr>) cid)) \<and>
    map_of (response_container (write_failed env st cid)) (record_label (total_record_count st))
      = Some (''ContactID: '' @ py_str (repr env) cid @ '' - Failed to write audio to S3'') \<and>
    map_of (response_container (set_result st text)) (record_label (total_record_count st))
      = Some text \<and>
    (process_record env st r = Some st' \<longrightarrow>
       process_records env st (r # rest) = process_records env st' rest)"
proof -
  have l: "lambda_handler env event =
      Inr (map_option (\<lambda>st. (response_of st, calls st)) (process_records env initial_state rs))"
    using assms by (simp add: lambda_handler_def try_bind_def)
  have rep: "\<exists>st. process_records env initial_state rs = Some st \<and>
          lambda_handler env event = Inr (Some (response_of st, calls st)) \<and>
          statusCode (response_of st) = 200 \<and>
          recordResults (body (response_of st)) = response_container st \<and>
          total_record_count st = length rs"
    if w: "\<forall>i < length rs. \<forall>vm cid stream a b.
         extract_record env (rs ! i) = Inr (vm, cid) \<and> vm_flag_of vm = Inr (JStr ''1'') \<and>
         kvs_info vm = Inr (stream, a, b) \<longrightarrow>
           service_loop (kinesis_video env (i + 1)) (wave env)
             (KvsPythonConsumerConnect stream a b) \<noteq> Inr None"
  proof -
    from w have "\<forall>i < length rs. \<forall>vm cid stream a b.
         extract_record env (rs ! i) = Inr (vm, cid) \<and> vm_flag_of vm = Inr (JStr ''1'') \<and>
         kvs_info vm = Inr (stream, a, b) \<longrightarrow>
           service_loop (kinesis_video env (total_record_count initial_state + i + 1)) (wave env)
             (KvsPythonConsumerConnect stream a b) \<noteq> Inr None"
      by (simp add: initial_state_def)
    from process_records_answer [OF this] obtain st
      where st: "process_records env initial_state rs = Some st" by blast
    from process_records_total [OF st] have "total_record_count st = length rs"
      by (simp add: initial_state_def)
    with st l show ?thesis by (simp add: response_of_def)
  qed
  have hang: "lambda_handler env event = Inr None"
    if h: "i < length rs \<and> extract_record env (rs ! i) = Inr (vm, vcid) \<and>
     vm_flag_of vm = Inr (JStr ''1'') \<and> kvs_info vm = Inr (vstream, va, vb) \<and>
     service_loop (kinesis_video env (i + 1)) (wave env)
       (KvsPythonConsumerConnect vstream va vb) = Inr None"
  proof -
    from h have "process_records env initial_state rs = None"
      by (intro process_records_wait [of i rs env vm vcid vstream va vb])
        (simp_all add: initial_state_def)
    with l show ?thesis by simp
  qed
  have surv: "\<exists>s1 s2. process_records env initial_state earlier = Some s1 \<and>
          process_record env s1 x = Some s2 \<and>
          total_record_count s2 = length earlier + 1 \<and>
          map_of (recordResults (body (response_of final))) (record_label (length earlier + 1))
            = map_of (response_container s2) (record_label (length earlier + 1))"
    if h: "rs = earlier @ x # later \<and> process_records env initial_state rs = Some final"
  proof -
    from h have a: "rs = earlier @ x # later"
      and b: "process_records env initial_state rs = Some final" by blast+
    from b have "process_records env initial_state (earlier @ x # later) = Some final"
      unfolding a .
    from entry_survives [OF this] show ?thesis
      by (auto simp add: initial_state_def response_of_def)
  qed
  have stages: "(extract_record env r = Inl e \<longrightarrow>
       process_record env st r =
         Some (set_result (st\<lparr>total_record_count := total_record_count st + 1\<rparr>)
                 ''Failed to extract record and/or decode''))"
    "(extract_record env r = Inr (vm_record, cid) \<and> vm_flag_of vm_record = Inl e \<longrightarrow>
       process_record env st r =
         Some (set_result (st\<lparr>total_record_count := total_record_count st + 1\<rparr>)
                 (''ContactID: '' @ py_str (repr env) cid
                  @ '' - IGNORE - An error occurred whilst evaluating Voicemail Flag'')))"
    "(kvs_info vm_record = Inl e \<longrightarrow>
       process_voicemail env st vm_record cid = Some (set_result st ''Failed to extract KVS info''))"
    "(kvs_info vm_record = Inr (stream, a, b) \<and> vm_tags env vm_record = Inr t \<longrightarrow>
       process_voicemail env st vm_record cid = upload env st cid stream a b t)"
    "(process_record env st r = Some st' \<longrightarrow>
       process_records env st (r # rest) = process_records env st' rest)"
    by (simp_all add: process_record_def process_voicemail_def)
  have tg: "vm_flag_of vm_record = Inr flag \<longrightarrow> (\<exists>tagging. vm_tags env vm_record = Inr tagging)"
    using tags_after_flag [of vm_record flag env] by blast
  have wf: "map_of (response_container (write_failed env st cid)) (record_label (total_record_count st))
      = Some (''ContactID: '' @ py_str (repr env) cid @ '' - Failed to write audio to S3'')"
    by (simp add: write_failed_def set_result_entry)
  from l have c1: "(\<exists>outcome. lambda_handler env event = Inr outcome)" by simp
  from rep have c2: "((\<forall>i < length rs. \<forall>vm cid stream a b.
         extract_record env (rs ! i) = Inr (vm, cid) \<and> vm_flag_of vm = Inr (JStr ''1'') \<and>
         kvs_info vm = Inr (stream, a, b) \<longrightarrow>
           service_loop (kinesis_video env (i + 1)) (wave env)
             (KvsPythonConsumerConnect stream a b) \<noteq> Inr None) \<longrightarrow>
       (\<exists>st. process_records env initial_state rs = Some st \<and>
          lambda_handler env event = Inr (Some (response_of st, calls st)) \<and>
          statusCode (response_of st) = 200 \<and>
          recordResults (body (response_of st)) = response_container st \<and>
          total_record_count st = length rs))" by blast
  from hang have c3: "(i < length rs \<and> extract_record env (rs ! i) = Inr (vm, vcid) \<and>
     vm_flag_of vm = Inr (JStr ''1'') \<and> kvs_info vm = Inr (vstream, va, vb) \<and>
     service_loop (kinesis_video env (i + 1)) (wave env)
       (KvsPythonConsumerConnect vstream va vb) = Inr None \<longrightarrow>
       lambda_handler env event = Inr None)" by blast
  from surv have c4: "(rs = earlier @ x # later \<and> process_records env initial_state rs = Some final \<longrightarrow>
       (\<exists>s1 s2. process_records env initial_state earlier = Some s1 \<and>
          process_record env s1 x = Some s2 \<and>
          total_record_count s2 = length earlier + 1 \<and>
          map_of (recordResults (body (response_of final))) (record_label (length earlier + 1))
            = map_of (response_container s2) (record_label (length earlier + 1))))" by blast
  note u = upload_failures [of env st stream a b e cid t processor audio contact year month day]
  show ?thesis
    by (intro conjI)
      (fact c1 c2 c3 c4 stages tg wf set_result_entry [of st "text"]
        u [THEN conjunct1] u [THEN conjunct2, THEN conjunct1]
        u [THEN conjunct2, THEN conjunct2])+
qed

lemma sample_report:
  "lambda_handler refusing_env
     (batch_event [''zzz'', ''bare'', ''noslash'', ''oneslash'', ''bounded'', ''archive'']) =
   Inr (Some
     (\<lparr>statusCode = 200,
       body = \<lparr>status = ''Complete. Processed 0 of 6 records.'',
          recordResults =
            [(''Record #1 result'', ''Failed to extract record and/or decode''),
             (''Record #2 result'',
              ''ContactID: c-9 - IGNORE - An error occurred whilst evaluating Voicemail Flag''),
             (''Record #3 result'', ''Failed to extract KVS info''),
             (''Record #4 result'', ''ContactID: c-7 - Failed to write audio to S3''),
             (''Record #5 result'', ''ContactID: c-1 - Failed to write audio to S3''),
             (''Record #6 result'', ''ContactID: c-2 - Failed to write audio to S3'')]\<rparr>\<rparr>,
      [NewConsumer [] 99 100,
       NewConsumer ''bounded'' 99 100,
       PutObject ''vm-bucket'' ''voicemail/2024/02/29/c-1.wav'' [82, 73, 70, 70, 1, 2, 3, 4]
         ''audio/x-wav'' ''vm_flag=1&vm_lang=en-NZ&'',
       NewConsumer ''archive'' 99 100,
       PutObject ''vm-bucket'' ''voicemail/2024/02/29/c-2.wav'' [82, 73, 70, 70, 1, 2, 3, 4]
         ''audio/x-wav'' ''vm_flag=1&vm_lang=en-NZ&'']))"
  by (simp add: sample_defs handler_defs consumer_defs int_defs Let_def dec_small dec_more)

theorem batch_returns_report_witness:
  "(py_getitem (batch_event [''bounded'', ''done'']) ''Records'' = Inr (JArr (map kinesis_record [''bounded'', ''done'']))) \<and>
   (py_iter (JArr (map kinesis_record [''bounded'', ''done''])) = Inr (map kinesis_record [''bounded'', ''done''])) \<and>
   (extract_record refusing_env (kinesis_record ''zzz'') = Inl ValueError) \<and>
   (extract_record refusing_env (kinesis_record ''bare'') = Inr (bare_payload, JStr ''c-9'')) \<and>
   (vm_flag_of bare_payload = Inl KeyError) \<and>
   (kvs_info (vm_payload ''c-6'' ''1'' ''archive'') = Inl ValueError) \<and>
   (vm_flag_of (vm_payload ''c-6'' ''1'' ''archive'') = Inr (JStr ''1'')) \<and>
   (kvs_info (vm_payload ''c-2'' ''1'' ''arn:aws:kinesisvideo:stream/archive/17'') = Inr (''archive'', 99, 100)) \<and>
   (vm_tags refusing_env (vm_payload ''c-2'' ''1'' ''arn:aws:kinesisvideo:stream/archive/17'') = Inr ''vm_flag=1&vm_lang=en-NZ&'') \<and>
   (service_loop (kinesis_video refusing_env (total_record_count (initial_state\<lparr>total_record_count := 1\<rparr>))) (wave refusing_env)
       (KvsPythonConsumerConnect [] 99 100) = Inl (External ''ResourceNotFoundException'')) \<and>
   (service_loop (kinesis_video (sample_env 0) (total_record_count (initial_state\<lparr>total_record_count := 1\<rparr>))) (wave (sample_env 0))
       (KvsPythonConsumerConnect ''bounded'' 99 100) = Inr (Some \<lparr>stream_name = ''bounded'', start_fragment = 99, end_fragment = 100,
        last_good_fragment_tags = Some (fragment_number_tag ''101''), past_end_fragment = True,
        from_audio_fragments = bytes_A, to_audio_fragments = [],
        to_customer_audio = None, from_customer_audio = None\<rparr>)) \<and>
   (from_customer_audio \<lparr>stream_name = ''bounded'', start_fragment = 99, end_fragment = 100,
        last_good_fragment_tags = Some (fragment_number_tag ''101''), past_end_fragment = True,
        from_audio_fragments = bytes_A, to_audio_fragments = [],
        to_customer_audio = None, from_customer_audio = None\<rparr> = None) \<and>
   (service_loop (kinesis_video refusing_env (total_record_count (initial_state\<lparr>total_record_count := 1\<rparr>))) (wave refusing_env)
       (KvsPythonConsumerConnect ''archive'' 99 100) = Inr (Some \<lparr>stream_name = ''archive'', start_fragment = 99, end_fragment = 100,
        last_good_fragment_tags = Some (fragment_number_tag ''100''), past_end_fragment = True,
        from_audio_fragments = bytes_A, to_audio_fragments = [],
        to_customer_audio = None, from_customer_audio = Some (82 # 73 # 70 # 70 # bytes_A)\<rparr>)) \<and>
   (from_customer_audio \<lparr>stream_name = ''archive'', start_fragment = 99, end_fragment = 100,
        last_good_fragment_tags = Some (fragment_number_tag ''100''), past_end_fragment = True,
        from_audio_fragments = bytes_A, to_audio_fragments = [],
        to_customer_audio = None, from_customer_audio = Some (82 # 73 # 70 # 70 # bytes_A)\<rparr> = Some (82 # 73 # 70 # 70 # bytes_A)) \<and>
   (utc_today refusing_env (total_record_count (initial_state\<lparr>total_record_count := 1\<rparr>)) = (''2024'', ''02'', ''29'')) \<and>
   (put_object refusing_env (total_record_count (initial_state\<lparr>total_record_count := 1\<rparr>)) (BUCKET_NAME refusing_env)
       (RECORDING_PATH refusing_env @ ''2024'' @ ''/'' @ ''02'' @ ''/'' @ ''29'' @ ''/'' @ ''c-2'' @ ''.wav'')
       (82 # 73 # 70 # 70 # bytes_A) AUDIO_MIME_TYPE ''vm_flag=1&vm_lang=en-NZ&'' = Some (External ''AccessDenied'')) \<and>
   (\<exists>st. process_records (sample_env 0) initial_state (map kinesis_record [''bounded'', ''done'']) = Some st \<and>
       lambda_handler (sample_env 0) (batch_event [''bounded'', ''done'']) = Inr (Some (response_of st, calls st)) \<and>
       statusCode (response_of st) = 200 \<and>
       recordResults (body (response_of st)) = response_container st \<and>
       total_record_count st = length (map kinesis_record [''bounded'', ''done''])) \<and>
   (process_records (sample_env 0) initial_state (map kinesis_record [''bounded'', ''done'']) = Some
         \<lparr>response_container =
            [(''Record #1 result'', ''ContactID: c-1 - Failed to write audio to S3''),
             (''Record #2 result'', ''ContactID: c-4 - IGNORE - voicemail already processed'')],
          total_record_count = 2, processed_record_count = 1,
          calls = [NewConsumer ''bounded'' 99 100]\<rparr>) \<and>
   (\<exists>s1 s2. process_records (sample_env 0) initial_state [] = Some s1 \<and>
          process_record (sample_env 0) s1 (kinesis_record ''bounded'') = Some s2 \<and>
          total_record_count s2 = length ([] :: json list) + 1 \<and>
          map_of (recordResults (body (response_of
                   \<lparr>response_container =
            [(''Record #1 result'', ''ContactID: c-1 - Failed to write audio to S3''),
             (''Record #2 result'', ''ContactID: c-4 - IGNORE - voicemail already processed'')],
          total_record_count = 2, processed_record_count = 1,
          calls = [NewConsumer ''bounded'' 99 100]\<rparr>)))
              (record_label (length ([] :: json list) + 1))
            = map_of (response_container s2) (record_label (length ([] :: json list) + 1))) \<and>
   (map_of (recordResults (body (response_of
                   \<lparr>response_container =
            [(''Record #1 result'', ''ContactID: c-1 - Failed to write audio to S3''),
             (''Record #2 result'', ''ContactID: c-4 - IGNORE - voicemail already processed'')],
          total_record_count = 2, processed_record_count = 1,
          calls = [NewConsumer ''bounded'' 99 100]\<rparr>))) ''Record #1 result''
          = Some ''ContactID: c-1 - Failed to write audio to S3'') \<and>
   (py_getitem (batch_event [''done'', ''broken'']) ''Records'' = Inr (JArr (map kinesis_record [''done'', ''broken'']))) \<and>
   (py_iter (JArr (map kinesis_record [''done'', ''broken''])) = Inr (map kinesis_record [''done'', ''broken''])) \<and>
   (extract_record (sample_env 0) (map kinesis_record [''done'', ''broken''] ! 1) = Inr (vm_payload ''c-3'' ''1'' ''arn:aws:kinesisvideo:stream/broken/17'', JStr ''c-3'')) \<and>
   (vm_flag_of (vm_payload ''c-3'' ''1'' ''arn:aws:kinesisvideo:stream/broken/17'') = Inr (JStr ''1'')) \<and>
   (kvs_info (vm_payload ''c-3'' ''1'' ''arn:aws:kinesisvideo:stream/broken/17'') = Inr (''broken'', 99, 100)) \<and>
   (service_loop (kinesis_video (sample_env 0) (1 + 1)) (wave (sample_env 0))
       (KvsPythonConsumerConnect ''broken'' 99 100) = Inr None) \<and>
   (lambda_handler (sample_env 0) (batch_event [''done'', ''broken'']) = Inr None) \<and>
   (process_record refusing_env initial_state (kinesis_record ''zzz'') =
       Some (set_result (initial_state\<lparr>total_record_count := total_record_count initial_state + 1\<rparr>)
               ''Failed to extract record and/or decode'')) \<and>
   (process_record refusing_env initial_state (kinesis_record ''bare'') =
       Some (set_result (initial_state\<lparr>total_record_count := total_record_count initial_state + 1\<rparr>)
               (''ContactID: '' @ py_str (repr refusing_env) (JStr ''c-9'')
                @ '' - IGNORE - An error occurred whilst evaluating Voicemail Flag''))) \<and>
   (process_voicemail refusing_env (initial_state\<lparr>total_record_count := 1\<rparr>) (vm_payload ''c-6'' ''1'' ''archive'') (JStr ''c-6'') =
       Some (set_result (initial_state\<lparr>total_record_count := 1\<rparr>) ''Failed to extract KVS info'')) \<and>
   (\<exists>tagging. vm_tags refusing_env (vm_payload ''c-6'' ''1'' ''archive'') = Inr tagging) \<and>
   (process_voicemail refusing_env (initial_state\<lparr>total_record_count := 1\<rparr>) (vm_payload ''c-2'' ''1'' ''arn:aws:kinesisvideo:stream/archive/17'') (JStr ''c-2'') =
       upload refusing_env (initial_state\<lparr>total_record_count := 1\<rparr>) (JStr ''c-2'') ''archive'' 99 100 ''vm_flag=1&vm_lang=en-NZ&'') \<and>
   (upload refusing_env (initial_state\<lparr>total_record_count := 1\<rparr>) (JStr ''c-7'') [] 99 100 ''vm_flag=1&vm_lang=en-NZ&'' =
       Some (write_failed refusing_env
         (initial_state\<lparr>total_record_count := 1\<rparr>\<lparr>calls := calls (initial_state\<lparr>total_record_count := 1\<rparr>) @ [NewConsumer [] 99 100]\<rparr>) (JStr ''c-7''))) \<and>
   (upload (sample_env 0) (initial_state\<lparr>total_record_count := 1\<rparr>) (JStr ''c-1'') ''bounded'' 99 100 ''vm_flag=1&vm_lang=en-NZ&'' =
       Some (write_failed (sample_env 0)
         (initial_state\<lparr>total_record_count := 1\<rparr>\<lparr>calls := calls (initial_state\<lparr>total_record_count := 1\<rparr>) @ [NewConsumer ''bounded'' 99 100]\<rparr>) (JStr ''c-1''))) \<and>
   (upload refusing_env (initial_state\<lparr>total_record_count := 1\<rparr>) (JStr ''c-2'') ''archive'' 99 100 ''vm_flag=1&vm_lang=en-NZ&'' =
       Some (write_failed refusing_env
         (initial_state\<lparr>total_record_count := 1\<rparr>\<lparr>calls := calls (initial_state\<lparr>total_record_count := 1\<rparr>) @
            [NewConsumer ''archive'' 99 100,
             PutObject (BUCKET_NAME refusing_env)
               (RECORDING_PATH refusing_env @ ''2024'' @ ''/'' @ ''02'' @ ''/'' @ ''29'' @ ''/'' @ ''c-2'' @ ''.wav'')
               (82 # 73 # 70 # 70 # bytes_A) AUDIO_MIME_TYPE ''vm_flag=1&vm_lang=en-NZ&'']\<rparr>) (JStr ''c-2'')))"
proof -
  have hR: "py_getitem (batch_event [''bounded'', ''done'']) ''Records'' = Inr (JArr (map kinesis_record [''bounded'', ''done'']))"
    by (simp add: batch_event_def)
  have hI: "py_iter (JArr (map kinesis_record [''bounded'', ''done''])) = Inr (map kinesis_record [''bounded'', ''done''])"
    by simp
  have hA: "extract_record refusing_env (kinesis_record ''zzz'') = Inl ValueError"
    by (simp add: sample_defs extract_record_def try_bind_def)
  have hB1: "extract_record refusing_env (kinesis_record ''bare'') = Inr (bare_payload, JStr ''c-9'')"
    by (simp add: sample_defs extract_record_def try_bind_def)
  have hB2: "vm_flag_of bare_payload = Inl KeyError"
    by (simp add: sample_defs vm_flag_of_def try_bind_def)
  have hC: "kvs_info (vm_payload ''c-6'' ''1'' ''archive'') = Inl ValueError"
    by (simp add: sample_defs handler_defs int_defs)
  have hD1: "vm_flag_of (vm_payload ''c-6'' ''1'' ''archive'') = Inr (JStr ''1'')"
    by (simp add: sample_defs vm_flag_of_def try_bind_def)
  have hD2: "kvs_info (vm_payload ''c-2'' ''1'' ''arn:aws:kinesisvideo:stream/archive/17'') = Inr (''archive'', 99, 100)"
    by (simp add: sample_defs handler_defs int_defs)
  have hD3: "vm_tags refusing_env (vm_payload ''c-2'' ''1'' ''arn:aws:kinesisvideo:stream/archive/17'') = Inr ''vm_flag=1&vm_lang=en-NZ&''"
    by (simp add: sample_defs handler_defs)
  have hE: "service_loop (kinesis_video refusing_env (total_record_count (initial_state\<lparr>total_record_count := 1\<rparr>))) (wave refusing_env)
       (KvsPythonConsumerConnect [] 99 100) = Inl (External ''ResourceNotFoundException'')"
    by (simp add: sample_defs consumer_defs)
  have hF1: "service_loop (kinesis_video (sample_env 0) (total_record_count (initial_state\<lparr>total_record_count := 1\<rparr>))) (wave (sample_env 0))
       (KvsPythonConsumerConnect ''bounded'' 99 100) = Inr (Some \<lparr>stream_name = ''bounded'', start_fragment = 99, end_fragment = 100,
        last_good_fragment_tags = Some (fragment_number_tag ''101''), past_end_fragment = True,
        from_audio_fragments = bytes_A, to_audio_fragments = [],
        to_customer_audio = None, from_customer_audio = None\<rparr>)"
    by (simp add: sample_defs consumer_defs int_defs Let_def)
  have hF2: "from_customer_audio \<lparr>stream_name = ''bounded'', start_fragment = 99, end_fragment = 100,
        last_good_fragment_tags = Some (fragment_number_tag ''101''), past_end_fragment = True,
        from_audio_fragments = bytes_A, to_audio_fragments = [],
        to_customer_audio = None, from_customer_audio = None\<rparr> = None"
    by simp
  have hG1: "service_loop (kinesis_video refusing_env (total_record_count (initial_state\<lparr>total_record_count := 1\<rparr>))) (wave refusing_env)
       (KvsPythonConsumerConnect ''archive'' 99 100) = Inr (Some \<lparr>stream_name = ''archive'', start_fragment = 99, end_fragment = 100,
        last_good_fragment_tags = Some (fragment_number_tag ''100''), past_end_fragment = True,
        from_audio_fragments = bytes_A, to_audio_fragments = [],
        to_customer_audio = None, from_customer_audio = Some (82 # 73 # 70 # 70 # bytes_A)\<rparr>)"
    by (simp add: sample_defs consumer_defs int_defs Let_def)
  have hG2: "from_customer_audio \<lparr>stream_name = ''archive'', start_fragment = 99, end_fragment = 100,
        last_good_fragment_tags = Some (fragment_number_tag ''100''), past_end_fragment = True,
        from_audio_fragments = bytes_A, to_audio_fragments = [],
        to_customer_audio = None, from_customer_audio = Some (82 # 73 # 70 # 70 # bytes_A)\<rparr> = Some (82 # 73 # 70 # 70 # bytes_A)"
    by simp
  have hG3: "utc_today refusing_env (total_record_count (initial_state\<lparr>total_record_count := 1\<rparr>)) = (''2024'', ''02'', ''29'')"
    by (simp add: refusing_env_def)
  have hG4: "put_object refusing_env (total_record_count (initial_state\<lparr>total_record_count := 1\<rparr>)) (BUCKET_NAME refusing_env)
       (RECORDING_PATH refusing_env @ ''2024'' @ ''/'' @ ''02'' @ ''/'' @ ''29'' @ ''/'' @ ''c-2'' @ ''.wav'')
       (82 # 73 # 70 # 70 # bytes_A) AUDIO_MIME_TYPE ''vm_flag=1&vm_lang=en-NZ&'' = Some (External ''AccessDenied'')"
    by (simp add: refusing_env_def)
  have hW: "\<forall>i < length (map kinesis_record [''bounded'', ''done'']). \<forall>vm cid stream a b.
         extract_record (sample_env 0) (map kinesis_record [''bounded'', ''done''] ! i) = Inr (vm, cid) \<and>
         vm_flag_of vm = Inr (JStr ''1'') \<and> kvs_info vm = Inr (stream, a, b) \<longrightarrow>
           service_loop (kinesis_video (sample_env 0) (i + 1)) (wave (sample_env 0))
             (KvsPythonConsumerConnect stream a b) \<noteq> Inr None"
  proof (intro allI impI)
    fix i vm cid stream and a b :: int
    assume i: "i < length (map kinesis_record [''bounded'', ''done''])"
      and h: "extract_record (sample_env 0) (map kinesis_record [''bounded'', ''done''] ! i) = Inr (vm, cid) \<and>
         vm_flag_of vm = Inr (JStr ''1'') \<and> kvs_info vm = Inr (stream, a, b)"
    from i have "i = 0 \<or> i = 1" by auto
    then show "service_loop (kinesis_video (sample_env 0) (i + 1)) (wave (sample_env 0))
             (KvsPythonConsumerConnect stream a b) \<noteq> Inr None"
    proof
      assume z: "i = 0"
      from h have "vm = vm_payload ''c-1'' ''1'' ''arn:aws:kinesisvideo:stream/bounded/17''"
        by (auto simp add: z sample_defs extract_record_def try_bind_def)
      with h have "stream = ''bounded'' \<and> a = 99 \<and> b = 100"
        by (auto simp add: sample_defs handler_defs int_defs)
      then show ?thesis
        by (simp add: sample_defs consumer_defs int_defs Let_def)
    next
      assume o: "i = 1"
      from h have "vm = vm_payload ''c-4'' ''0'' ''arn:aws:kinesisvideo:stream/archive/17''"
        by (auto simp add: o sample_defs extract_record_def try_bind_def)
      with h have False by (auto simp add: sample_defs vm_flag_of_def try_bind_def)
      then show ?thesis ..
    qed
  qed
  have hV: "process_records (sample_env 0) initial_state (map kinesis_record [''bounded'', ''done'']) = Some
         \<lparr>response_container =
            [(''Record #1 result'', ''ContactID: c-1 - Failed to write audio to S3''),
             (''Record #2 result'', ''ContactID: c-4 - IGNORE - voicemail already processed'')],
          total_record_count = 2, processed_record_count = 1,
          calls = [NewConsumer ''bounded'' 99 100]\<rparr>"
    by (simp add: sample_defs handler_defs consumer_defs int_defs Let_def dec_small)
  have vS: "map_of (recordResults (body (response_of
                   \<lparr>response_container =
            [(''Record #1 result'', ''ContactID: c-1 - Failed to write audio to S3''),
             (''Record #2 result'', ''ContactID: c-4 - IGNORE - voicemail already processed'')],
          total_record_count = 2, processed_record_count = 1,
          calls = [NewConsumer ''bounded'' 99 100]\<rparr>))) ''Record #1 result''
          = Some ''ContactID: c-1 - Failed to write audio to S3''"
    by (simp add: response_of_def)
  have hR3: "py_getitem (batch_event [''done'', ''broken'']) ''Records'' = Inr (JArr (map kinesis_record [''done'', ''broken'']))"
    by (simp add: batch_event_def)
  have hI3: "py_iter (JArr (map kinesis_record [''done'', ''broken''])) = Inr (map kinesis_record [''done'', ''broken''])"
    by simp
  have hH1: "extract_record (sample_env 0) (map kinesis_record [''done'', ''broken''] ! 1) = Inr (vm_payload ''c-3'' ''1'' ''arn:aws:kinesisvideo:stream/broken/17'', JStr ''c-3'')"
    by (simp add: sample_defs extract_record_def try_bind_def)
  have hH2: "vm_flag_of (vm_payload ''c-3'' ''1'' ''arn:aws:kinesisvideo:stream/broken/17'') = Inr (JStr ''1'')"
    by (simp add: sample_defs vm_flag_of_def try_bind_def)
  have hH3: "kvs_info (vm_payload ''c-3'' ''1'' ''arn:aws:kinesisvideo:stream/broken/17'') = Inr (''broken'', 99, 100)"
    by (simp add: sample_defs handler_defs int_defs)
  have hH4: "service_loop (kinesis_video (sample_env 0) (1 + 1)) (wave (sample_env 0))
       (KvsPythonConsumerConnect ''broken'' 99 100) = Inr None"
    by (simp add: sample_defs consumer_defs int_defs Let_def)
  note T = batch_returns_report [OF hR hI]
  have cW: "\<exists>st. process_records (sample_env 0) initial_state (map kinesis_record [''bounded'', ''done'']) = Some st \<and>
       lambda_handler (sample_env 0) (batch_event [''bounded'', ''done'']) = Inr (Some (response_of st, calls st)) \<and>
       statusCode (response_of st) = 200 \<and>
       recordResults (body (response_of st)) = response_container st \<and>
       total_record_count st = length (map kinesis_record [''bounded'', ''done''])"
    by (rule mp [OF T [where env = "sample_env 0", THEN conjunct2, THEN conjunct1] hW])
  have hS: "map kinesis_record [''bounded'', ''done'']
        = [] @ kinesis_record ''bounded'' # [kinesis_record ''done''] \<and>
      process_records (sample_env 0) initial_state (map kinesis_record [''bounded'', ''done''])
        = Some \<lparr>response_container =
            [(''Record #1 result'', ''ContactID: c-1 - Failed to write audio to S3''),
             (''Record #2 result'', ''ContactID: c-4 - IGNORE - voicemail already processed'')],
          total_record_count = 2, processed_record_count = 1,
          calls = [NewConsumer ''bounded'' 99 100]\<rparr>"
    using hV by simp
  have cS: "\<exists>s1 s2. process_records (sample_env 0) initial_state [] = Some s1 \<and>
          process_record (sample_env 0) s1 (kinesis_record ''bounded'') = Some s2 \<and>
          total_record_count s2 = length ([] :: json list) + 1 \<and>
          map_of (recordResults (body (response_of
                   \<lparr>response_container =
            [(''Record #1 result'', ''ContactID: c-1 - Failed to write audio to S3''),
             (''Record #2 result'', ''ContactID: c-4 - IGNORE - voicemail already processed'')],
          total_record_count = 2, processed_record_count = 1,
          calls = [NewConsumer ''bounded'' 99 100]\<rparr>)))
              (record_label (length ([] :: json list) + 1))
            = map_of (response_container s2) (record_label (length ([] :: json list) + 1))"
    by (rule mp [OF T [where env = "sample_env 0" and earlier = "[]" and x = "kinesis_record ''bounded''"
        and later = "[kinesis_record ''done'']"
        and final = "\<lparr>response_container =
            [(''Record #1 result'', ''ContactID: c-1 - Failed to write audio to S3''),
             (''Record #2 result'', ''ContactID: c-4 - IGNORE - voicemail already processed'')],
          total_record_count = 2, processed_record_count = 1,
          calls = [NewConsumer ''bounded'' 99 100]\<rparr>", THEN conjunct2, THEN conjunct2, THEN conjunct2, THEN conjunct1] hS])
  have hH: "1 < length (map kinesis_record [''done'', ''broken'']) \<and>
      extract_record (sample_env 0) (map kinesis_record [''done'', ''broken''] ! 1)
        = Inr (vm_payload ''c-3'' ''1'' ''arn:aws:kinesisvideo:stream/broken/17'', JStr ''c-3'') \<and>
      vm_flag_of (vm_payload ''c-3'' ''1'' ''arn:aws:kinesisvideo:stream/broken/17'')
        = Inr (JStr ''1'') \<and>
      kvs_info (vm_payload ''c-3'' ''1'' ''arn:aws:kinesisvideo:stream/broken/17'')
        = Inr (''broken'', 99, 100) \<and>
      service_loop (kinesis_video (sample_env 0) (1 + 1)) (wave (sample_env 0))
        (KvsPythonConsumerConnect ''broken'' 99 100) = Inr None"
    using hH1 hH2 hH3 hH4 by simp
  have cH: "lambda_handler (sample_env 0) (batch_event [''done'', ''broken'']) = Inr None"
    by (rule mp [OF batch_returns_report [OF hR3 hI3, where env = "sample_env 0" and i = 1
        and vm = "vm_payload ''c-3'' ''1'' ''arn:aws:kinesisvideo:stream/broken/17''" and vcid = "JStr ''c-3''"
        and vstream = "''broken''" and va = 99 and vb = 100,
          THEN conjunct2, THEN conjunct2, THEN conjunct1] hH])
  have cA: "process_record refusing_env initial_state (kinesis_record ''zzz'') =
       Some (set_result (initial_state\<lparr>total_record_count := total_record_count initial_state + 1\<rparr>)
               ''Failed to extract record and/or decode'')"
    by (rule mp [OF T [where env = refusing_env and r = "kinesis_record ''zzz''" and e = ValueError and st = initial_state,
          THEN conjunct2, THEN conjunct2, THEN conjunct2, THEN conjunct2, THEN conjunct1]
        hA])
  have cB: "process_record refusing_env initial_state (kinesis_record ''bare'') =
       Some (set_result (initial_state\<lparr>total_record_count := total_record_count initial_state + 1\<rparr>)
               (''ContactID: '' @ py_str (repr refusing_env) (JStr ''c-9'')
                @ '' - IGNORE - An error occurred whilst evaluating Voicemail Flag''))"
    by (rule mp [OF T [where env = refusing_env and r = "kinesis_record ''bare''" and e = KeyError and st = initial_state
        and vm_record = bare_payload and cid = "JStr ''c-9''",
          THEN conjunct2, THEN conjunct2, THEN conjunct2, THEN conjunct2, THEN conjunct2, THEN conjunct1]
        conjI [OF hB1 hB2]])
  have cC: "process_voicemail refusing_env (initial_state\<lparr>total_record_count := 1\<rparr>) (vm_payload ''c-6'' ''1'' ''archive'') (JStr ''c-6'') =
       Some (set_result (initial_state\<lparr>total_record_count := 1\<rparr>) ''Failed to extract KVS info'')"
    by (rule mp [OF T [where env = refusing_env and e = ValueError and st = "initial_state\<lparr>total_record_count := 1\<rparr>"
        and vm_record = "vm_payload ''c-6'' ''1'' ''archive''" and cid = "JStr ''c-6''",
          THEN conjunct2, THEN conjunct2, THEN conjunct2, THEN conjunct2, THEN conjunct2, THEN conjunct2, THEN conjunct1]
        hC])
  have cD: "\<exists>tagging. vm_tags refusing_env (vm_payload ''c-6'' ''1'' ''archive'') = Inr tagging"
    by (rule mp [OF T [where env = refusing_env and vm_record = "vm_payload ''c-6'' ''1'' ''archive''" and flag = "JStr ''1''",
          THEN conjunct2, THEN conjunct2, THEN conjunct2, THEN conjunct2, THEN conjunct2, THEN conjunct2, THEN conjunct2, THEN conjunct1]
        hD1])
  have cD2: "process_voicemail refusing_env (initial_state\<lparr>total_record_count := 1\<rparr>) (vm_payload ''c-2'' ''1'' ''arn:aws:kinesisvideo:stream/archive/17'') (JStr ''c-2'') =
       upload refusing_env (initial_state\<lparr>total_record_count := 1\<rparr>) (JStr ''c-2'') ''archive'' 99 100 ''vm_flag=1&vm_lang=en-NZ&''"
    by (rule mp [OF T [where env = refusing_env and st = "initial_state\<lparr>total_record_count := 1\<rparr>" and vm_record = "vm_payload ''c-2'' ''1'' ''arn:aws:kinesisvideo:stream/archive/17''"
        and cid = "JStr ''c-2''" and stream = "''archive''" and a = 99 and b = 100 and t = "''vm_flag=1&vm_lang=en-NZ&''",
          THEN conjunct2, THEN conjunct2, THEN conjunct2, THEN conjunct2, THEN conjunct2, THEN conjunct2, THEN conjunct2, THEN conjunct2, THEN conjunct1]
        conjI [OF hD2 hD3]])
  have cE: "upload refusing_env (initial_state\<lparr>total_record_count := 1\<rparr>) (JStr ''c-7'') [] 99 100 ''vm_flag=1&vm_lang=en-NZ&'' =
       Some (write_failed refusing_env
         (initial_state\<lparr>total_record_count := 1\<rparr>\<lparr>calls := calls (initial_state\<lparr>total_record_count := 1\<rparr>) @ [NewConsumer [] 99 100]\<rparr>) (JStr ''c-7''))"
    by (rule mp [OF T [where env = refusing_env and st = "initial_state\<lparr>total_record_count := 1\<rparr>" and cid = "JStr ''c-7''"
        and stream = "[]" and a = 99 and b = 100 and t = "''vm_flag=1&vm_lang=en-NZ&''"
        and e = "External ''ResourceNotFoundException''",
          THEN conjunct2, THEN conjunct2, THEN conjunct2, THEN conjunct2, THEN conjunct2, THEN conjunct2, THEN conjunct2, THEN conjunct2, THEN conjunct2, THEN conjunct1]
        hE])
  have cF: "upload (sample_env 0) (initial_state\<lparr>total_record_count := 1\<rparr>) (JStr ''c-1'') ''bounded'' 99 100 ''vm_flag=1&vm_lang=en-NZ&'' =
       Some (write_failed (sample_env 0)
         (initial_state\<lparr>total_record_count := 1\<rparr>\<lparr>calls := calls (initial_state\<lparr>total_record_count := 1\<rparr>) @ [NewConsumer ''bounded'' 99 100]\<rparr>) (JStr ''c-1''))"
    by (rule mp [OF T [where env = "sample_env 0" and st = "initial_state\<lparr>total_record_count := 1\<rparr>" and cid = "JStr ''c-1''"
        and stream = "''bounded''" and a = 99 and b = 100 and t = "''vm_flag=1&vm_lang=en-NZ&''"
        and processor = "\<lparr>stream_name = ''bounded'', start_fragment = 99, end_fragment = 100,
        last_good_fragment_tags = Some (fragment_number_tag ''101''), past_end_fragment = True,
        from_audio_fragments = bytes_A, to_audio_fragments = [],
        to_customer_audio = None, from_customer_audio = None\<rparr>",
          THEN conjunct2, THEN conjunct2, THEN conjunct2, THEN conjunct2, THEN conjunct2, THEN conjunct2, THEN conjunct2, THEN conjunct2, THEN conjunct2, THEN conjunct2, THEN conjunct1]
        conjI [OF hF1 disjI1 [OF hF2]]])
  have cG: "upload refusing_env (initial_state\<lparr>total_record_count := 1\<rparr>) (JStr ''c-2'') ''archive'' 99 100 ''vm_flag=1&vm_lang=en-NZ&'' =
       Some (write_failed refusing_env
         (initial_state\<lparr>total_record_count := 1\<rparr>\<lparr>calls := calls (initial_state\<lparr>total_record_count := 1\<rparr>) @
            [NewConsumer ''archive'' 99 100,
             PutObject (BUCKET_NAME refusing_env)
               (RECORDING_PATH refusing_env @ ''2024'' @ ''/'' @ ''02'' @ ''/'' @ ''29'' @ ''/'' @ ''c-2'' @ ''.wav'')
               (82 # 73 # 70 # 70 # bytes_A) AUDIO_MIME_TYPE ''vm_flag=1&vm_lang=en-NZ&'']\<rparr>) (JStr ''c-2''))"
    by (rule mp [OF T [where env = refusing_env and st = "initial_state\<lparr>total_record_count := 1\<rparr>" and cid = "JStr ''c-2''"
        and stream = "''archive''" and a = 99 and b = 100 and t = "''vm_flag=1&vm_lang=en-NZ&''"
        and processor = "\<lparr>stream_name = ''archive'', start_fragment = 99, end_fragment = 100,
        last_good_fragment_tags = Some (fragment_number_tag ''100''), past_end_fragment = True,
        from_audio_fragments = bytes_A, to_audio_fragments = [],
        to_customer_audio = None, from_customer_audio = Some (82 # 73 # 70 # 70 # bytes_A)\<rparr>" and audio = "82 # 73 # 70 # 70 # bytes_A"
        and contact = "''c-2''" and year = "''2024''" and month = "''02''" and day = "''29''"
        and e = "External ''AccessDenied''",
          THEN conjunct2, THEN conjunct2, THEN conjunct2, THEN conjunct2, THEN conjunct2, THEN conjunct2, THEN conjunct2, THEN conjunct2, THEN conjunct2, THEN conjunct2, THEN conjunct2, THEN conjunct1]
        conjI [OF hG1 conjI [OF hG2 conjI [OF refl conjI [OF hG3 hG4]]]]])
  show ?thesis
    by (intro conjI)
      (fact hR hI cW hV cS vS hR3 hI3 hH1 hH2 hH3 hH4 cH
        hA hB1 hB2 hC hD1 hD2 hD3 hE hF1 hF2 hG1 hG2 hG3 hG4 cA cB cC cD cD2 cE cF cG)+
qed

end
